theory Spec2Isabelle
  imports Complex_Main
begin

section \<open>The jetbot heading-tracking environment\<close>

text \<open>
  The environment class \<^verbatim>\<open>LearnHow2useEnv\<close> of \<^verbatim>\<open>learn_how2use_env.py\<close> is a set of
  callbacks over batched tensors with one row per environment instance. A tensor of shape
  \<open>(N, 3)\<close> is a list of triples, one of shape \<open>(N, 1)\<close> or \<open>(N)\<close> a list of scalars, one of
  shape \<open>(N, 4)\<close> a list of quadruples, any other two-dimensional tensor a list of rows.
  Tensor entries are real numbers. The functions that store the commands take the rounding
  of their arithmetic as a parameter \<open>fl\<close>: with \<open>fl32\<close>, the rounding of 32-bit floating
  point, they are what the program computes; with the identity they are its reading in exact
  arithmetic. The other callbacks are given in exact arithmetic only, and the properties
  below use the exact reading wherever rounding does not bear on them.
\<close>

type_synonym vec3 = "real \<times> real \<times> real"
type_synonym quat = "real \<times> real \<times> real \<times> real"
type_synonym tensor = "real list list"

subsection \<open>Tensor operations used by the callbacks\<close>

definition vx :: "vec3 \<Rightarrow> real" where
  "vx v = fst v"

definition vy :: "vec3 \<Rightarrow> real" where
  "vy v = fst (snd v)"

definition vz :: "vec3 \<Rightarrow> real" where
  "vz v = snd (snd v)"

text \<open>\<^verbatim>\<open>t[..., -1] = c\<close> on one row.\<close>

definition set_last :: "real \<Rightarrow> vec3 \<Rightarrow> vec3" where
  "set_last c v = (vx v, vy v, c)"

text \<open>The Euclidean norm of a row, and a row divided by a scalar, in exact arithmetic.\<close>

definition norm3 :: "vec3 \<Rightarrow> real" where
  "norm3 v = sqrt (vx v * vx v + vy v * vy v + vz v * vz v)"

definition div3 :: "vec3 \<Rightarrow> real \<Rightarrow> vec3" where
  "div3 v n = (vx v / n, vy v / n, vz v / n)"

text \<open>
  \<open>fl32 x\<close> is the 32-bit floating-point number nearest to \<open>x\<close>, ties going to the even
  significand: 24 significant bits, exponents from \<open>-126\<close> on, so that the subnormal
  numbers are there. Overflow is not modelled: \<open>fl32\<close> is the rounding of the program for
  numbers below \<open>2^128\<close> in size.
\<close>

definition rne :: "real \<Rightarrow> int" where
  "rne t =
     (let f = \<lfloor>t\<rfloor>
      in if t - of_int f < 1 / 2 then f
         else if 1 / 2 < t - of_int f then f + 1
         else if even f then f else f + 1)"

definition fl32 :: "real \<Rightarrow> real" where
  "fl32 x =
     (if x = 0 then 0
      else let e = max \<lfloor>log 2 \<bar>x\<bar>\<rfloor> (- 126);
               q = 2 powr (of_int e - 23)
           in of_int (rne (x / q)) * q)"

text \<open>
  \<^verbatim>\<open>torch.linalg.norm(t, dim=1, keepdim=True)\<close> on one row: the squares are summed from
  left to right and the root is taken, every operation rounded by \<open>fl\<close>.
\<close>

definition norm3_fl :: "(real \<Rightarrow> real) \<Rightarrow> vec3 \<Rightarrow> real" where
  "norm3_fl fl v =
     fl (sqrt (fl (fl (fl (vx v * vx v) + fl (vy v * vy v)) + fl (vz v * vz v))))"

text \<open>One row of \<^verbatim>\<open>t / n\<close> with \<open>n\<close> of shape \<open>(N, 1)\<close>: every component is divided.\<close>

definition div3_fl :: "(real \<Rightarrow> real) \<Rightarrow> vec3 \<Rightarrow> real \<Rightarrow> vec3" where
  "div3_fl fl v n = (fl (vx v / n), fl (vy v / n), fl (vz v / n))"

definition add3 :: "vec3 \<Rightarrow> vec3 \<Rightarrow> vec3" where
  "add3 a b = (vx a + vx b, vy a + vy b, vz a + vz b)"

text \<open>\<^verbatim>\<open>torch.sum(a * b, dim=-1)\<close> on one row.\<close>

definition dot3 :: "vec3 \<Rightarrow> vec3 \<Rightarrow> real" where
  "dot3 a b = vx a * vx b + vy a * vy b + vz a * vz b"

text \<open>\<^verbatim>\<open>torch.cross(a, b, dim=-1)\<close> on one row.\<close>

definition cross3 :: "vec3 \<Rightarrow> vec3 \<Rightarrow> vec3" where
  "cross3 a b =
     (vy a * vz b - vz a * vy b, vz a * vx b - vx a * vz b, vx a * vy b - vy a * vx b)"

text \<open>
  \<^verbatim>\<open>t[ids]\<close> reads the rows at the given indices; \<^verbatim>\<open>t[ids] = vals\<close> writes row \<open>k\<close> of
  \<open>vals\<close> at index \<open>ids[k]\<close>, in the order of \<open>ids\<close>. Both are used only after the indices
  have been checked against the number of rows. Indices are natural numbers, as the host
  passes them.
\<close>

definition gather :: "nat list \<Rightarrow> 'a list \<Rightarrow> 'a list" where
  "gather ids xs = map (\<lambda>i. xs ! i) ids"

definition scatter :: "nat list \<Rightarrow> 'a list \<Rightarrow> 'a list \<Rightarrow> 'a list" where
  "scatter ids vals xs = fold (\<lambda>(i, v) acc. acc[i := v]) (zip ids vals) xs"

subsection \<open>The host framework\<close>

text \<open>
  The simulation framework owns the robot (an articulation with its data buffers), the
  scene and the episode counters, and it calls the callbacks below. Its own functions are
  not part of this repository; the ones the callbacks call are parameters of the model.
\<close>

record robot =
  root_com_vel_w :: tensor
  root_link_quat_w :: "quat list"
  FORWARD_VEC_B :: "vec3 list"
  root_com_lin_vel_b :: "vec3 list"
  root_pos_w :: "vec3 list"
  root_quat_w :: "quat list"
  default_root_state :: tensor
  ALL_INDICES :: "nat list"
  root_state_w :: tensor
  joint_vel_target :: tensor

record host_api =
  quat_apply :: "quat \<Rightarrow> vec3 \<Rightarrow> vec3"
  quat_from_angle_axis :: "real \<Rightarrow> vec3 \<Rightarrow> quat"
  super_reset_idx :: "nat list \<Rightarrow> robot \<Rightarrow> int list \<Rightarrow> robot \<times> int list"
  write_root_state_to_sim :: "tensor \<Rightarrow> nat list \<Rightarrow> robot \<Rightarrow> robot"
  set_joint_velocity_target :: "tensor \<Rightarrow> nat list \<Rightarrow> robot \<Rightarrow> robot"
  find_joints :: "string list \<Rightarrow> robot \<Rightarrow> nat list \<times> string list"

text \<open>
  \<open>quat_apply\<close> and \<open>quat_from_angle_axis\<close> act on one row. \<open>super_reset_idx\<close> is the
  base class's \<^verbatim>\<open>_reset_idx\<close>: it sees the robot and the episode counters, not the
  attributes this class adds. What \<^verbatim>\<open>visualize\<close> receives is kept as a value:
\<close>

record marker_frame =
  loc :: "vec3 list"
  rots :: "quat list"
  marker_indices :: "nat list"

subsection \<open>The environment object\<close>

text \<open>
  Attributes that only a callback creates (\<open>actions\<close>, \<open>velocity\<close>, \<open>forwards\<close>, \<open>dot\<close>,
  \<open>cross\<close>, \<open>forward_speed\<close>) are optional: reading one before it exists raises
  \<^verbatim>\<open>AttributeError\<close>. The action tensors live in a store, \<open>heap\<close>, addressed by position,
  because the caller keeps a reference to the tensor it passes in.
\<close>

record env =
  num_envs :: nat
  dof_names :: "string list"
  robot :: robot
  env_origins :: "vec3 list"
  episode_length_buf :: "int list"
  max_episode_length :: int
  dof_idx :: "nat list"
  visualization_markers :: "marker_frame option"
  up_dir :: vec3
  yaws :: "real list"
  commands :: "vec3 list"
  marker_locations :: "vec3 list"
  marker_offset :: "vec3 list"
  forward_marker_orientations :: "quat list"
  command_marker_orientations :: "quat list"
  heap :: "tensor list"
  actions :: "nat option"
  velocity :: "tensor option"
  forwards :: "vec3 list option"
  dot :: "real list option"
  cross :: "real list option"
  forward_speed :: "real list option"

datatype division = Norm | Ratio

datatype error = AttributeError | IndexError | NotFinite division

text \<open>
  \<open>NotFinite\<close> is not a Python exception: a floating-point quotient by zero is \<open>inf\<close>
  or \<open>nan\<close> and the program goes on with it. Where a \<open>nan\<close> would be stored in a tensor
  of the environment the callback of the model ends, since no real number stands for it,
  and says which division it was; the program stores the \<open>nan\<close> in that row and leaves
  the other rows as they are, which \<open>sampled_commands\<close> and \<open>resampled_commands\<close> below
  follow row by row.
\<close>

subsection \<open>Sampling a command and deriving its yaw\<close>

text \<open>
  \<^verbatim>\<open>commands / torch.linalg.norm(commands, dim=1, keepdim=True)\<close>, one row, with the
  rounding \<open>fl\<close>; \<open>normalize_row\<close> is its reading in exact arithmetic.
\<close>

definition normalize_row_fl :: "(real \<Rightarrow> real) \<Rightarrow> vec3 \<Rightarrow> vec3 option" where
  "normalize_row_fl fl v =
     (let n = norm3_fl fl v in if n = 0 then None else Some (div3_fl fl v n))"

definition normalize_row :: "vec3 \<Rightarrow> vec3 option" where
  "normalize_row = normalize_row_fl (\<lambda>x. x)"

text \<open>
  The yaw of one command row, lines 78 to 84 and again 147 to 153:
  \<^verbatim>\<open>
  ratio = commands[:,1]/(commands[:,0]+1E-8)
  gzero = torch.where(commands > 0, True, False)
  lzero = torch.where(commands < 0, True, False)
  plus = lzero[:,0]*gzero[:,1]
  minus = lzero[:,0]*lzero[:,1]
  offsets = torch.pi*plus - torch.pi*minus
  yaws = torch.atan(ratio).reshape(-1,1) + offsets.reshape(-1,1)
  \<close>
\<close>

definition ratio_denominator :: "vec3 \<Rightarrow> real" where
  "ratio_denominator c = vx c + 1 / 10 ^ 8"

definition yaw_offset :: "vec3 \<Rightarrow> real" where
  "yaw_offset c =
     (let gzero = (0 < vx c, 0 < vy c, 0 < vz c);
          lzero = (vx c < 0, vy c < 0, vz c < 0);
          plus = (fst lzero \<and> fst (snd gzero));
          minus = (fst lzero \<and> fst (snd lzero))
      in pi * of_bool plus - pi * of_bool minus)"

text \<open>
  The arithmetic of the yaw is exact in both readings; only the zero of the denominator
  is followed as floating point does it.
  The quotient of line 78 is a floating-point division, and it is not guarded: where the
  denominator is zero, the quotient of a positive number is \<open>inf\<close>, that of a negative
  number \<open>-inf\<close> (the sum \<open>x + 1E-8\<close>, when zero, is a positive zero), and \<open>0/0\<close> is
  \<open>nan\<close>. \<^verbatim>\<open>torch.atan\<close> of \<open>inf\<close> is \<open>pi/2\<close>, of \<open>-inf\<close> it is \<open>-pi/2\<close>, of \<open>nan\<close> it is
  \<open>nan\<close>.
\<close>

datatype fvalue = Num real | PosInf | NegInf | NaN

definition fdiv :: "real \<Rightarrow> real \<Rightarrow> fvalue" where
  "fdiv a b =
     (if b \<noteq> 0 then Num (a / b)
      else if 0 < a then PosInf else if a < 0 then NegInf else NaN)"

fun atan_f :: "fvalue \<Rightarrow> real option" where
  "atan_f (Num t) = Some (arctan t)"
| "atan_f PosInf = Some (pi / 2)"
| "atan_f NegInf = Some (- (pi / 2))"
| "atan_f NaN = None"

definition yaw_ratio :: "vec3 \<Rightarrow> fvalue" where
  "yaw_ratio c = fdiv (vy c) (ratio_denominator c)"

definition yaw_row :: "vec3 \<Rightarrow> real option" where
  "yaw_row c =
     (case atan_f (yaw_ratio c) of
        None \<Rightarrow> None
      | Some a \<Rightarrow> Some (a + yaw_offset c))"

text \<open>
  \<^verbatim>\<open>torch.randn((n, 3))\<close> is a parameter: \<open>rnd k\<close> is row \<open>k\<close> of the sampled tensor.
\<close>

definition randn :: "(nat \<Rightarrow> vec3) \<Rightarrow> nat \<Rightarrow> vec3 list" where
  "randn rnd n = map rnd [0..<n]"

subsection \<open>The callbacks\<close>

text \<open>
  The marker prototypes of \<^verbatim>\<open>define_markers\<close>, in the order of the dictionary, each with
  its colour; a marker index is a position in this list.
\<close>

definition define_markers :: "(string \<times> vec3) list" where
  "define_markers = [(''forward'', (0, 1, 1)), (''command'', (1, 0, 0))]"

definition setup_scene_fl ::
  "(real \<Rightarrow> real) \<Rightarrow> robot \<Rightarrow> (nat \<Rightarrow> vec3) \<Rightarrow> env \<Rightarrow> error + env" where
  "setup_scene_fl fl rob rnd s =
     (let n = num_envs s;
          commands0 = randn rnd n;
          commands1 = map (set_last 0) commands0
      in case those (map (normalize_row_fl fl) commands1) of
           None \<Rightarrow> Inl (NotFinite Norm)
         | Some commands2 \<Rightarrow>
             (case those (map yaw_row commands2) of
                None \<Rightarrow> Inl (NotFinite Ratio)
              | Some yaws2 \<Rightarrow>
                  Inr (s\<lparr>robot := rob,
                         visualization_markers := None,
                         up_dir := (0, 0, 1),
                         yaws := yaws2,
                         commands := commands2,
                         marker_locations := replicate n (0, 0, 0),
                         marker_offset := map (set_last (1 / 2)) (replicate n (0, 0, 0)),
                         forward_marker_orientations := replicate n (0, 0, 0, 0),
                         command_marker_orientations := replicate n (0, 0, 0, 0)\<rparr>)))"

definition setup_scene :: "robot \<Rightarrow> (nat \<Rightarrow> vec3) \<Rightarrow> env \<Rightarrow> error + env" where
  "setup_scene = setup_scene_fl (\<lambda>x. x)"

text \<open>
  \<^verbatim>\<open>__init__\<close>: the base class's constructor runs \<^verbatim>\<open>_setup_scene\<close>, then the joints
  named in the configuration are looked up.
\<close>

definition init :: "host_api \<Rightarrow> robot \<Rightarrow> (nat \<Rightarrow> vec3) \<Rightarrow> env \<Rightarrow> error + env" where
  "init api rob rnd s =
     (case setup_scene rob rnd s of
        Inl e \<Rightarrow> Inl e
      | Inr s1 \<Rightarrow> Inr (s1\<lparr>dof_idx := fst (find_joints api (dof_names s1) (robot s1))\<rparr>))"

definition visualize_markers :: "host_api \<Rightarrow> env \<Rightarrow> env" where
  "visualize_markers api s =
     (let locations = root_pos_w (robot s);
          fwd = root_quat_w (robot s);
          cmd = map (\<lambda>yaw. quat_from_angle_axis api yaw (up_dir s)) (yaws s);
          loc = map2 add3 locations (marker_offset s);
          loc2 = loc @ loc;
          rots2 = fwd @ cmd;
          all_envs = [0..<num_envs s];
          indices = map (\<lambda>_. 0) all_envs @ map (\<lambda>_. 1) all_envs
      in s\<lparr>marker_locations := locations,
            forward_marker_orientations := fwd,
            command_marker_orientations := cmd,
            visualization_markers :=
              Some \<lparr>loc = loc2, rots = rots2, marker_indices = indices\<rparr>\<rparr>)"

text \<open>
  \<^verbatim>\<open>actions.clone()\<close> allocates a new tensor with the contents of the one at address \<open>a\<close>,
  the address of a tensor of the store.
\<close>

definition pre_physics_step :: "host_api \<Rightarrow> nat \<Rightarrow> env \<Rightarrow> env" where
  "pre_physics_step api a s =
     visualize_markers api
       (s\<lparr>heap := heap s @ [heap s ! a], actions := Some (length (heap s))\<rparr>)"

definition apply_action :: "host_api \<Rightarrow> env \<Rightarrow> error + env" where
  "apply_action api s =
     (case actions s of
        None \<Rightarrow> Inl AttributeError
      | Some a \<Rightarrow>
          Inr (s\<lparr>robot := set_joint_velocity_target api (heap s ! a) (dof_idx s) (robot s)\<rparr>))"

text \<open>The returned dictionary has the one key \<^verbatim>\<open>"policy"\<close>.\<close>

definition get_observations :: "host_api \<Rightarrow> env \<Rightarrow> (string \<rightharpoonup> tensor) \<times> env" where
  "get_observations api s =
     (let velocity1 = root_com_vel_w (robot s);
          forwards1 = map2 (quat_apply api) (root_link_quat_w (robot s)) (FORWARD_VEC_B (robot s));
          dot1 = map2 dot3 forwards1 (commands s);
          cross1 = map vz (map2 cross3 forwards1 (commands s));
          forward_speed1 = map vx (root_com_lin_vel_b (robot s));
          obs = map (\<lambda>(d, c, f). [d, c, f]) (zip dot1 (zip cross1 forward_speed1))
      in ([''policy'' \<mapsto> obs],
          s\<lparr>velocity := Some velocity1, forwards := Some forwards1, dot := Some dot1,
            cross := Some cross1, forward_speed := Some forward_speed1\<rparr>))"

definition get_rewards :: "env \<Rightarrow> error + real list" where
  "get_rewards s =
     (case forward_speed s of
        None \<Rightarrow> Inl AttributeError
      | Some f \<Rightarrow>
          (case dot s of
             None \<Rightarrow> Inl AttributeError
           | Some d \<Rightarrow>
               (case cross s of
                  None \<Rightarrow> Inl AttributeError
                | Some c \<Rightarrow> Inr (map2 (-) (map2 (*) f d) (map abs c)))))"

text \<open>
  The first component is the Python scalar \<^verbatim>\<open>False\<close>, which the host broadcasts over all
  environments; the second has one flag per environment.
\<close>

definition get_dones :: "env \<Rightarrow> bool \<times> bool list" where
  "get_dones s =
     (let time_out = map (\<lambda>e. max_episode_length s - 1 \<le> e) (episode_length_buf s)
      in (False, time_out))"

text \<open>\<^verbatim>\<open>default_root_state[:, :3] += env_origins[env_ids]\<close>, one row.\<close>

definition add_origin :: "real list \<Rightarrow> vec3 \<Rightarrow> real list" where
  "add_origin row orig = map2 (+) (take 3 row) [vx orig, vy orig, vz orig] @ drop 3 row"

definition reset_idx_fl ::
  "(real \<Rightarrow> real) \<Rightarrow> host_api \<Rightarrow> (nat \<Rightarrow> vec3) \<Rightarrow> nat list option \<Rightarrow> env \<Rightarrow>
   error + env" where
  "reset_idx_fl fl api rnd env_ids s =
     (let ids = (case env_ids of None \<Rightarrow> ALL_INDICES (robot s) | Some e \<Rightarrow> e)
      in if \<exists>i \<in> set ids. num_envs s \<le> i then Inl IndexError
         else
           (let (robot1, buf1) = super_reset_idx api ids (robot s) (episode_length_buf s);
                commands1 = scatter ids (randn rnd (length ids)) (commands s);
                commands2 = scatter ids (map (set_last 0) (gather ids commands1)) commands1
            in (case those (map (normalize_row_fl fl) (gather ids commands2)) of
                  None \<Rightarrow> Inl (NotFinite Norm)
                | Some rows \<Rightarrow>
                    (let commands3 = scatter ids rows commands2
                     in (case those (map yaw_row (gather ids commands3)) of
                           None \<Rightarrow> Inl (NotFinite Ratio)
                         | Some yaws1 \<Rightarrow>
                             (let default_root_state1 =
                                    map2 add_origin (gather ids (default_root_state robot1))
                                      (gather ids (env_origins s));
                                  robot2 =
                                    write_root_state_to_sim api default_root_state1 ids robot1
                              in Inr (visualize_markers api
                                        (s\<lparr>robot := robot2,
                                           episode_length_buf := buf1,
                                           commands := commands3,
                                           yaws := scatter ids yaws1 (yaws s)\<rparr>))))))))"

definition reset_idx ::
  "host_api \<Rightarrow> (nat \<Rightarrow> vec3) \<Rightarrow> nat list option \<Rightarrow> env \<Rightarrow> error + env" where
  "reset_idx = reset_idx_fl (\<lambda>x. x)"

text \<open>
  Lines 73 to 75, and lines 142 to 144, on the whole tensor, with a row of \<open>nan\<close> kept as
  \<open>None\<close>: the three statements work row by row, so a row that cannot be normalised
  leaves the other rows as they are. \<open>setup_scene_fl\<close> and \<open>reset_idx_fl\<close> go on only
  when no row is \<open>None\<close>, and then store these rows.
\<close>

definition sampled_commands ::
  "(real \<Rightarrow> real) \<Rightarrow> (nat \<Rightarrow> vec3) \<Rightarrow> nat \<Rightarrow> vec3 option list" where
  "sampled_commands fl rnd n =
     (let commands0 = randn rnd n;
          commands1 = map (set_last 0) commands0
      in map (normalize_row_fl fl) commands1)"

definition resampled_commands ::
  "(real \<Rightarrow> real) \<Rightarrow> (nat \<Rightarrow> vec3) \<Rightarrow> nat list \<Rightarrow> vec3 list \<Rightarrow> vec3 option list" where
  "resampled_commands fl rnd ids cmds =
     (let commands1 = scatter ids (randn rnd (length ids)) cmds;
          commands2 = scatter ids (map (set_last 0) (gather ids commands1)) commands1
      in scatter ids (map (normalize_row_fl fl) (gather ids commands2)) (map Some commands2))"

subsection \<open>The states the host can reach\<close>

text \<open>
  The host builds the environment with \<open>init\<close>, then calls the callbacks in its own order.
  Between two callbacks it steps the simulation and refreshes what it owns: the robot's
  buffers, the scene, the episode counters and the tensors of the store. It never writes
  the attributes this class adds.
\<close>

inductive reachable :: "host_api \<Rightarrow> env \<Rightarrow> bool" for api :: host_api where
  r_init: "init api rob rnd s0 = Inr s \<Longrightarrow> reachable api s"
| r_host: "reachable api s \<Longrightarrow>
     reachable api (s\<lparr>robot := rob, env_origins := orig, episode_length_buf := buf,
                      max_episode_length := m, heap := h\<rparr>)"
| r_pre_physics_step: "reachable api s \<Longrightarrow> reachable api (pre_physics_step api a s)"
| r_apply_action: "reachable api s \<Longrightarrow> apply_action api s = Inr s' \<Longrightarrow> reachable api s'"
| r_get_observations: "reachable api s \<Longrightarrow> reachable api (snd (get_observations api s))"
| r_reset_idx: "reachable api s \<Longrightarrow> reset_idx api rnd env_ids s = Inr s' \<Longrightarrow> reachable api s'"

text \<open>
  The next three definitions are not functions of the program: they say what the
  properties below compare the program with.

  A sampled row is moderate when the larger of \<open>|x|\<close> and \<open>|y|\<close> lies between \<open>2^-60\<close>
  and \<open>2^60\<close>: its squares neither underflow to zero nor overflow in float32.
\<close>

definition moderate :: "vec3 \<Rightarrow> bool" where
  "moderate r =
     ((1 / 2 ^ 60 \<le> \<bar>vx r\<bar> \<or> 1 / 2 ^ 60 \<le> \<bar>vy r\<bar>) \<and> \<bar>vx r\<bar> \<le> 2 ^ 60 \<and> \<bar>vy r\<bar> \<le> 2 ^ 60)"

text \<open>
  What the two arrows of a submitted frame show, for a state with \<open>n\<close> environments:
  \<open>2 * n\<close> poses, all at the root position of their robot raised by \<open>(0, 0, 0.5)\<close>; the
  first \<open>n\<close> with the root orientation and marker index \<open>0\<close>, the second \<open>n\<close> with the
  rotation by the stored yaw about the \<open>z\<close> axis and marker index \<open>1\<close>.
\<close>

definition two_arrows :: "host_api \<Rightarrow> env \<Rightarrow> marker_frame \<Rightarrow> bool" where
  "two_arrows api s f =
     (let n = num_envs s
      in length (loc f) = 2 * n \<and> length (rots f) = 2 * n \<and>
         length (marker_indices f) = 2 * n \<and>
         (\<forall>i < n.
            loc f ! i = add3 (root_pos_w (robot s) ! i) (0, 0, 1 / 2) \<and>
            loc f ! (n + i) = add3 (root_pos_w (robot s) ! i) (0, 0, 1 / 2) \<and>
            rots f ! i = root_quat_w (robot s) ! i \<and>
            marker_indices f ! i = 0 \<and>
            rots f ! (n + i) = quat_from_angle_axis api (yaws s ! i) (0, 0, 1) \<and>
            marker_indices f ! (n + i) = 1))"

text \<open>
  The quadrant-corrected arctangent, as mathematics defines it: the angle in
  \<open>(-pi, pi]\<close> of the point \<open>(x, y)\<close>. The yaw of a command is compared with it.
\<close>

definition atan2 :: "real \<Rightarrow> real \<Rightarrow> real" where
  "atan2 y x =
     (if 0 < x then arctan (y / x)
      else if x < 0 \<and> 0 \<le> y then arctan (y / x) + pi
      else if x < 0 \<and> y < 0 then arctan (y / x) - pi
      else if 0 < y then pi / 2
      else if y < 0 then - (pi / 2)
      else 0)"

subsection \<open>A small host, for concrete runs\<close>

text \<open>
  Two environments. The rotation functions are the usual ones: a vector rotated by a
  quaternion \<open>(w, x, y, z)\<close>, and the quaternion of a rotation by an angle about an axis.
\<close>

definition example_api :: host_api where
  "example_api =
     \<lparr>quat_apply = (\<lambda>(w, x, y, z) v.
          let t = cross3 (x, y, z) v;
              t2 = (2 * vx t, 2 * vy t, 2 * vz t)
          in add3 (add3 v (w * vx t2, w * vy t2, w * vz t2)) (cross3 (x, y, z) t2)),
      quat_from_angle_axis = (\<lambda>angle axis.
          (cos (angle / 2), vx axis * sin (angle / 2), vy axis * sin (angle / 2),
           vz axis * sin (angle / 2))),
      super_reset_idx = (\<lambda>ids rob buf. (rob, scatter ids (map (\<lambda>_. 0) ids) buf)),
      write_root_state_to_sim = (\<lambda>rows ids rob.
          rob\<lparr>root_state_w := scatter ids rows (root_state_w rob)\<rparr>),
      set_joint_velocity_target = (\<lambda>target ids rob.
          rob\<lparr>joint_vel_target := map2 (scatter ids) target (joint_vel_target rob)\<rparr>),
      find_joints = (\<lambda>names rob. ([0, 1], names))\<rparr>"

definition example_robot :: robot where
  "example_robot =
     \<lparr>root_com_vel_w = [[1 / 2, 0, 0, 0, 0, 0], [0, 1, 0, 0, 0, 0]],
      root_link_quat_w = [(1, 0, 0, 0), (0, 0, 0, 1)],
      FORWARD_VEC_B = [(1, 0, 0), (1, 0, 0)],
      root_com_lin_vel_b = [(1 / 2, 0, 0), (1, 0, 0)],
      root_pos_w = [(0, 0, 0), (2, 0, 0)],
      root_quat_w = [(1, 0, 0, 0), (0, 0, 0, 1)],
      default_root_state =
        [[0, 0, 1 / 20, 1, 0, 0, 0, 0, 0, 0, 0, 0, 0],
         [0, 0, 1 / 20, 1, 0, 0, 0, 0, 0, 0, 0, 0, 0]],
      ALL_INDICES = [0, 1],
      root_state_w =
        [[0, 0, 0, 1, 0, 0, 0, 0, 0, 0, 0, 0, 0],
         [2, 0, 0, 0, 0, 0, 1, 0, 0, 0, 0, 0, 0]],
      joint_vel_target = [[0, 0], [0, 0]]\<rparr>"

text \<open>The object as the base class's constructor hands it to \<^verbatim>\<open>_setup_scene\<close>.\<close>

definition example_env :: env where
  "example_env =
     \<lparr>num_envs = 2,
      dof_names = [''left_wheel_joint'', ''right_wheel_joint''],
      robot = example_robot,
      env_origins = [(0, 0, 0), (2, 0, 0)],
      episode_length_buf = [0, 299],
      max_episode_length = 300,
      dof_idx = [],
      visualization_markers = None,
      up_dir = (0, 0, 0),
      yaws = [],
      commands = [],
      marker_locations = [],
      marker_offset = [],
      forward_marker_orientations = [],
      command_marker_orientations = [],
      heap = [[[1, -1], [1 / 2, 1 / 2]]],
      actions = None,
      velocity = None,
      forwards = None,
      dot = None,
      cross = None,
      forward_speed = None\<rparr>"

text \<open>
  Samples of \<^verbatim>\<open>torch.randn\<close>: two ordinary ones; one whose \<open>x\<close> is negative and smaller in
  size than \<open>1E-8\<close>; one whose normalised \<open>x\<close> is \<open>-1E-8\<close> (in floating point the sample
  \<open>(-1E-8, 1, z)\<close> does the same, its norm being rounded to \<open>1\<close>).
\<close>

definition example_rnd :: "nat \<Rightarrow> vec3" where
  "example_rnd k = (if k = 0 then (1, 0, 5) else (0, - 1, 2))"

definition reset_rnd :: "nat \<Rightarrow> vec3" where
  "reset_rnd k = (0, 1, 3)"

definition tiny_rnd :: "nat \<Rightarrow> vec3" where
  "tiny_rnd k = (- (1 / 2 ^ 28), 1, 1 / 2)"


text \<open>
  The environment after \<^verbatim>\<open>_setup_scene\<close> and after \<^verbatim>\<open>__init__\<close> with the ordinary
  sample, and after a reset of environment \<open>1\<close> that follows.
\<close>

definition example_scene :: env where
  "example_scene = projr (setup_scene example_robot example_rnd example_env)"

definition example_state :: env where
  "example_state = projr (init example_api example_robot example_rnd example_env)"

definition example_reset :: env where
  "example_reset = projr (reset_idx example_api reset_rnd (Some [1]) example_state)"

text \<open>
  A sample whose norm is computed without rounding, \<open>(3, 4, 7)\<close> in every row, and the
  environments that the float32 functions give with it: after \<^verbatim>\<open>_setup_scene\<close>, and after
  a reset of environment \<open>1\<close> of the ordinary run.
\<close>

definition pythagorean_rnd :: "nat \<Rightarrow> vec3" where
  "pythagorean_rnd k = (3, 4, 7)"

definition rounded_scene :: env where
  "rounded_scene = projr (setup_scene_fl fl32 example_robot pythagorean_rnd example_env)"

definition rounded_reset :: env where
  "rounded_reset =
     projr (reset_idx_fl fl32 example_api pythagorean_rnd (Some [1]) example_state)"

text \<open>The environments set up with the two other samples.\<close>

definition tiny_state :: env where
  "tiny_state = projr (setup_scene example_robot tiny_rnd example_env)"


text \<open>Environment \<open>1\<close> of the ordinary run, reset with each of them.\<close>

definition tiny_reset :: env where
  "tiny_reset = projr (reset_idx example_api tiny_rnd (Some [1]) example_state)"


section \<open>Properties\<close>

subsection \<open>The reading in exact arithmetic\<close>

lemma norm3_fl_id: "norm3_fl (\<lambda>x. x) v = norm3 v"
  by (simp add: norm3_fl_def norm3_def)

lemma div3_fl_id: "div3_fl (\<lambda>x. x) v n = div3 v n"
  by (simp add: div3_fl_def div3_def)

lemma normalize_row_eq:
  "normalize_row v = (if norm3 v = 0 then None else Some (div3 v (norm3 v)))"
  by (simp add: normalize_row_def normalize_row_fl_def norm3_fl_id div3_fl_id)

lemma yaw_row_eq:
  "yaw_row c =
     (if ratio_denominator c = 0
      then (if 0 < vy c then Some (pi / 2 + yaw_offset c)
            else if vy c < 0 then Some (- (pi / 2) + yaw_offset c)
            else None)
      else Some (arctan (vy c / ratio_denominator c) + yaw_offset c))"
  by (simp add: yaw_row_def yaw_ratio_def fdiv_def)

lemma setup_scene_eq:
  "setup_scene rob rnd s =
     (let n = num_envs s;
          commands0 = randn rnd n;
          commands1 = map (set_last 0) commands0
      in case those (map normalize_row commands1) of
           None \<Rightarrow> Inl (NotFinite Norm)
         | Some commands2 \<Rightarrow>
             (case those (map yaw_row commands2) of
                None \<Rightarrow> Inl (NotFinite Ratio)
              | Some yaws2 \<Rightarrow>
                  Inr (s\<lparr>robot := rob,
                         visualization_markers := None,
                         up_dir := (0, 0, 1),
                         yaws := yaws2,
                         commands := commands2,
                         marker_locations := replicate n (0, 0, 0),
                         marker_offset := map (set_last (1 / 2)) (replicate n (0, 0, 0)),
                         forward_marker_orientations := replicate n (0, 0, 0, 0),
                         command_marker_orientations := replicate n (0, 0, 0, 0)\<rparr>)))"
  by (simp only: setup_scene_def setup_scene_fl_def normalize_row_def)

lemma reset_idx_eq:
  "reset_idx api rnd env_ids s =
     (let ids = (case env_ids of None \<Rightarrow> ALL_INDICES (robot s) | Some e \<Rightarrow> e)
      in if \<exists>i \<in> set ids. num_envs s \<le> i then Inl IndexError
         else
           (let (robot1, buf1) = super_reset_idx api ids (robot s) (episode_length_buf s);
                commands1 = scatter ids (randn rnd (length ids)) (commands s);
                commands2 = scatter ids (map (set_last 0) (gather ids commands1)) commands1
            in (case those (map normalize_row (gather ids commands2)) of
                  None \<Rightarrow> Inl (NotFinite Norm)
                | Some rows \<Rightarrow>
                    (let commands3 = scatter ids rows commands2
                     in (case those (map yaw_row (gather ids commands3)) of
                           None \<Rightarrow> Inl (NotFinite Ratio)
                         | Some yaws1 \<Rightarrow>
                             (let default_root_state1 =
                                    map2 add_origin (gather ids (default_root_state robot1))
                                      (gather ids (env_origins s));
                                  robot2 =
                                    write_root_state_to_sim api default_root_state1 ids robot1
                              in Inr (visualize_markers api
                                        (s\<lparr>robot := robot2,
                                           episode_length_buf := buf1,
                                           commands := commands3,
                                           yaws := scatter ids yaws1 (yaws s)\<rparr>))))))))"
  by (simp only: reset_idx_def reset_idx_fl_def normalize_row_def)

subsection \<open>Lists of optional rows, indexed reads and writes\<close>

lemma those_map_Some:
  "those (map f xs) = Some ys \<Longrightarrow> length ys = length xs \<and> (\<forall>i<length xs. f (xs ! i) = Some (ys ! i))"
proof (induction xs arbitrary: ys)
  case Nil
  then show ?case by simp
next
  case (Cons x xs)
  then obtain y ys' where y: "f x = Some y" and ys': "those (map f xs) = Some ys'" and e: "ys = y # ys'"
    by (auto split: option.splits)
  from Cons.IH [OF ys'] have "length ys' = length xs" and "\<forall>i<length xs. f (xs ! i) = Some (ys' ! i)"
    by simp_all
  with y e show ?case
    by (auto simp: nth_Cons split: nat.splits)
qed

lemma those_map_total:
  "(\<forall>x \<in> set xs. f x \<noteq> None) \<Longrightarrow> \<exists>ys. those (map f xs) = Some ys"
  by (induction xs) auto

lemma length_scatter [simp]: "length (scatter ids vals xs) = length xs"
proof -
  have "length (fold (\<lambda>(i, v) acc. acc[i := v]) ps xs) = length xs" for ps
    by (induction ps arbitrary: xs) (auto split: prod.splits)
  then show ?thesis by (simp add: scatter_def)
qed

lemma scatter_frame: "i \<notin> set ids \<Longrightarrow> scatter ids vals xs ! i = xs ! i"
proof -
  have "i \<notin> fst ` set ps \<Longrightarrow> fold (\<lambda>(i, v) acc. acc[i := v]) ps xs ! i = xs ! i" for ps
    by (induction ps arbitrary: xs) (auto split: prod.splits)
  moreover assume "i \<notin> set ids"
  then have "i \<notin> fst ` set (zip ids vals)"
    by (auto dest: set_zip_leftD)
  ultimately show ?thesis by (simp add: scatter_def)
qed

subsection \<open>Normalised rows\<close>

lemma sum_squares_zero_iff:
  "(x * x + y * y + z * z = 0) = (x = 0 \<and> y = 0 \<and> z = (0::real))"
proof
  assume h: "x * x + y * y + z * z = 0"
  have "0 \<le> x * x" "0 \<le> y * y" "0 \<le> z * z" by simp_all
  with h have "x * x = 0" "y * y = 0" "z * z = 0" by linarith+
  then show "x = 0 \<and> y = 0 \<and> z = 0" by simp
qed simp

lemma norm3_zero_iff: "(norm3 v = 0) = (vx v = 0 \<and> vy v = 0 \<and> vz v = 0)"
  by (simp add: norm3_def sum_squares_zero_iff)

lemma norm3_div3:
  assumes "norm3 v \<noteq> 0"
  shows "norm3 (div3 v (norm3 v)) = 1"
proof -
  define q where "q = vx v * vx v + vy v * vy v + vz v * vz v"
  have q0: "0 \<le> q" by (simp add: q_def)
  have n: "norm3 v = sqrt q" by (simp add: norm3_def q_def)
  with assms have qpos: "0 < q" using q0 by (cases "q = 0") auto
  have sq: "sqrt q * sqrt q = q" using q0 by simp
  have "norm3 (div3 v (sqrt q)) =
        sqrt (vx v / sqrt q * (vx v / sqrt q) + vy v / sqrt q * (vy v / sqrt q)
              + vz v / sqrt q * (vz v / sqrt q))"
    by (simp only: norm3_def div3_def vx_def vy_def vz_def fst_conv snd_conv)
  also have "vx v / sqrt q * (vx v / sqrt q) + vy v / sqrt q * (vy v / sqrt q)
        + vz v / sqrt q * (vz v / sqrt q) = q / (sqrt q * sqrt q)"
    unfolding q_def by (simp only: times_divide_times_eq add_divide_distrib)
  also have "\<dots> = 1" using sq qpos by simp
  finally show ?thesis by (simp add: n)
qed

lemma normalize_row_Some:
  assumes "normalize_row v = Some u"
  shows "norm3 u = 1 \<and> vx u = vx v / norm3 v \<and> vy u = vy v / norm3 v \<and> vz u = vz v / norm3 v"
proof -
  from assms have n: "norm3 v \<noteq> 0" and u: "u = div3 v (norm3 v)"
    by (simp_all add: normalize_row_eq split: if_splits)
  show ?thesis
    using norm3_div3 [OF n] by (simp add: u div3_def vx_def vy_def vz_def)
qed

lemma normalize_row_defined:
  "vx v \<noteq> 0 \<or> vy v \<noteq> 0 \<Longrightarrow> normalize_row v \<noteq> None"
  unfolding normalize_row_eq norm3_zero_iff by (cases "vx v = 0") simp_all

lemma unit_horizontal_nonzero:
  assumes "norm3 c = 1" and "vz c = 0" and "vx c = - (1 / 10 ^ 8)"
  shows "vy c \<noteq> 0"
proof
  assume "vy c = 0"
  with assms have "sqrt (1 / 10 ^ 8 * (1 / 10 ^ 8)) = (1::real)"
    by (simp add: norm3_def)
  then have "1 / 10 ^ 8 * (1 / 10 ^ 8) = (1::real)"
    using real_sqrt_eq_1_iff by blast
  then show False by simp
qed

lemma yaw_row_defined:
  "norm3 c = 1 \<Longrightarrow> vz c = 0 \<Longrightarrow> yaw_row c \<noteq> None"
  using unit_horizontal_nonzero [of c]
  unfolding yaw_row_eq ratio_denominator_def
  by (cases "vx c = - (1 / 10 ^ 8)") (simp_all add: add_eq_0_iff)

subsection \<open>Setting up the scene\<close>

lemma set_last_simps [simp]:
  "vx (set_last c v) = vx v" "vy (set_last c v) = vy v" "vz (set_last c v) = c"
  by (simp_all add: set_last_def vx_def vy_def vz_def)

lemma setup_scene_fl_InrD:
  assumes "setup_scene_fl fl rob rnd s = Inr s'"
  shows "those (map (normalize_row_fl fl) (map (set_last 0) (randn rnd (num_envs s)))) = Some (commands s')
    \<and> those (map yaw_row (commands s')) = Some (yaws s')
    \<and> num_envs s' = num_envs s
    \<and> marker_offset s' = replicate (num_envs s) (0, 0, 1 / 2)
    \<and> up_dir s' = (0, 0, 1)"
  using assms
  by (auto simp: setup_scene_fl_def Let_def set_last_def vx_def vy_def split: option.splits)

lemma setup_scene_fl_rows:
  assumes "setup_scene_fl fl rob rnd s = Inr s'" and "i < num_envs s"
  shows "length (commands s') = num_envs s \<and> length (yaws s') = num_envs s
    \<and> normalize_row_fl fl (set_last 0 (rnd i)) = Some (commands s' ! i)
    \<and> yaw_row (commands s' ! i) = Some (yaws s' ! i)"
proof -
  note d = setup_scene_fl_InrD [OF assms(1)]
  from d have c: "those (map (normalize_row_fl fl) (map (set_last 0) (randn rnd (num_envs s)))) = Some (commands s')"
    and y: "those (map yaw_row (commands s')) = Some (yaws s')" by simp_all
  from those_map_Some [OF c] have lc: "length (commands s') = num_envs s"
    and rc: "normalize_row_fl fl (map (set_last 0) (randn rnd (num_envs s)) ! i) = Some (commands s' ! i)"
    using assms(2) by (simp_all add: randn_def)
  from those_map_Some [OF y] lc assms(2) have ly: "length (yaws s') = num_envs s"
    and ry: "yaw_row (commands s' ! i) = Some (yaws s' ! i)" by simp_all
  from rc assms(2) have "normalize_row_fl fl (set_last 0 (rnd i)) = Some (commands s' ! i)"
    by (simp add: randn_def)
  with lc ly ry show ?thesis by simp
qed

lemmas setup_scene_InrD =
  setup_scene_fl_InrD [where fl = "\<lambda>x. x", folded setup_scene_def normalize_row_def]

lemmas setup_scene_rows =
  setup_scene_fl_rows [where fl = "\<lambda>x. x", folded setup_scene_def normalize_row_def]

lemma setup_scene_returns:
  assumes "\<forall>k < num_envs s. vx (rnd k) \<noteq> 0 \<or> vy (rnd k) \<noteq> 0"
  shows "\<exists>s'. setup_scene rob rnd s = Inr s'"
proof -
  let ?rows = "map (set_last 0) (randn rnd (num_envs s))"
  have "\<forall>r \<in> set ?rows. normalize_row r \<noteq> None"
  proof
    fix r assume "r \<in> set ?rows"
    then obtain k where "k < num_envs s" and "r = set_last 0 (rnd k)"
      by (auto simp: randn_def)
    with assms have "vx r \<noteq> 0 \<or> vy r \<noteq> 0" by simp
    then show "normalize_row r \<noteq> None" by (rule normalize_row_defined)
  qed
  from those_map_total [OF this] obtain cs where cs: "those (map normalize_row ?rows) = Some cs"
    by blast
  have "\<forall>c \<in> set cs. yaw_row c \<noteq> None"
  proof
    fix c assume "c \<in> set cs"
    then obtain i where i: "i < length cs" and ci: "c = cs ! i"
      by (auto simp: in_set_conv_nth)
    from those_map_Some [OF cs] i have "normalize_row (?rows ! i) = Some c" and "i < length ?rows"
      by (simp_all add: ci)
    with normalize_row_Some [of "?rows ! i" c] have "norm3 c = 1" and "vz c = 0"
      by (simp_all add: randn_def)
    then show "yaw_row c \<noteq> None" by (rule yaw_row_defined)
  qed
  from those_map_total [OF this] obtain ys where "those (map yaw_row cs) = Some ys"
    by blast
  with cs show ?thesis
    by (simp add: setup_scene_eq Let_def)
qed


subsection \<open>Resetting environments\<close>

lemma length_gather [simp]: "length (gather ids xs) = length ids"
  by (simp add: gather_def)

lemma nth_gather [simp]: "k < length ids \<Longrightarrow> gather ids xs ! k = xs ! (ids ! k)"
  by (simp add: gather_def)

lemma set_gather: "set (gather ids xs) = (\<lambda>i. xs ! i) ` set ids"
  by (simp add: gather_def)

lemma fold_update_frame:
  "i \<notin> fst ` set ps \<Longrightarrow> fold (\<lambda>(i, v) acc. acc[i := v]) ps xs ! i = xs ! i"
  by (induction ps arbitrary: xs) (auto split: prod.splits)

lemma fold_update_last:
  "i < length xs \<Longrightarrow> i \<in> fst ` set ps
     \<Longrightarrow> \<exists>p \<in> set ps. fst p = i \<and> fold (\<lambda>(i, v) acc. acc[i := v]) ps xs ! i = snd p"
proof (induction ps arbitrary: xs)
  case Nil
  then show ?case by simp
next
  case (Cons p ps)
  obtain j v where p: "p = (j, v)" by (cases p)
  show ?case
  proof (cases "i \<in> fst ` set ps")
    case True
    with Cons.IH [of "xs[j := v]"] Cons.prems(1) p show ?thesis by auto
  next
    case False
    with Cons.prems p have ij: "i = j" by auto
    from False have "fold (\<lambda>(i, v) acc. acc[i := v]) ps (xs[j := v]) ! i = xs[j := v] ! i"
      by (rule fold_update_frame)
    with ij Cons.prems(1) p show ?thesis by simp
  qed
qed

lemma scatter_nth_ex:
  assumes "length vals = length ids" and "i \<in> set ids" and "i < length xs"
  shows "\<exists>k < length ids. ids ! k = i \<and> scatter ids vals xs ! i = vals ! k"
proof -
  have "i \<in> fst ` set (zip ids vals)"
    using assms(1,2) by (metis map_fst_zip set_map)
  from fold_update_last [OF assms(3) this]
  obtain p where p: "p \<in> set (zip ids vals)" and i: "fst p = i"
    and v: "scatter ids vals xs ! i = snd p"
    by (auto simp: scatter_def)
  from p obtain n where "ids ! n = fst p" and "vals ! n = snd p" and "n < length ids"
    unfolding in_set_zip by blast
  with i v show ?thesis by auto
qed

lemma visualize_markers_fields [simp]:
  "commands (visualize_markers api s) = commands s"
  "yaws (visualize_markers api s) = yaws s"
  "robot (visualize_markers api s) = robot s"
  "num_envs (visualize_markers api s) = num_envs s"
  "marker_offset (visualize_markers api s) = marker_offset s"
  "up_dir (visualize_markers api s) = up_dir s"
  "heap (visualize_markers api s) = heap s"
  "actions (visualize_markers api s) = actions s"
  "dof_idx (visualize_markers api s) = dof_idx s"
  "dot (visualize_markers api s) = dot s"
  "cross (visualize_markers api s) = cross s"
  "forward_speed (visualize_markers api s) = forward_speed s"
  by (simp_all add: visualize_markers_def Let_def)

lemma reset_idx_fl_InrD:
  fixes fl api rnd env_ids s
  defines "ids \<equiv> (case env_ids of None \<Rightarrow> ALL_INDICES (robot s) | Some e \<Rightarrow> e)"
  defines "c1 \<equiv> scatter ids (randn rnd (length ids)) (commands s)"
  defines "c2 \<equiv> scatter ids (map (set_last 0) (gather ids c1)) c1"
  defines "r1 \<equiv> fst (super_reset_idx api ids (robot s) (episode_length_buf s))"
  assumes "reset_idx_fl fl api rnd env_ids s = Inr s'"
  shows "\<exists>rows yaws1.
     (\<forall>i \<in> set ids. i < num_envs s) \<and>
     those (map (normalize_row_fl fl) (gather ids c2)) = Some rows \<and>
     those (map yaw_row (gather ids (scatter ids rows c2))) = Some yaws1 \<and>
     commands s' = scatter ids rows c2 \<and>
     yaws s' = scatter ids yaws1 (yaws s) \<and>
     num_envs s' = num_envs s \<and>
     marker_offset s' = marker_offset s \<and>
     up_dir s' = up_dir s \<and>
     robot s' = write_root_state_to_sim api
        (map2 add_origin (gather ids (default_root_state r1)) (gather ids (env_origins s))) ids r1"
  using assms(5)
  unfolding reset_idx_fl_def ids_def [symmetric] Let_def
  by (auto simp: c1_def c2_def r1_def split: if_splits option.splits prod.splits)


lemmas reset_idx_InrD =
  reset_idx_fl_InrD [where fl = "\<lambda>x. x", folded reset_idx_def normalize_row_def]

lemma length_randn [simp]: "length (randn rnd n) = n"
  by (simp add: randn_def)

lemma nth_randn [simp]: "k < n \<Longrightarrow> randn rnd n ! k = rnd k"
  by (simp add: randn_def)

text \<open>After the two writes of lines 142 and 143, a reset row is a sample with its last
  component set to zero.\<close>

lemma sampled_row:
  fixes rnd ids xs
  defines "c1 \<equiv> scatter ids (randn rnd (length ids)) xs"
  defines "c2 \<equiv> scatter ids (map (set_last 0) (gather ids c1)) c1"
  assumes "i \<in> set ids" and "i < length xs"
  shows "\<exists>k < length ids. ids ! k = i \<and> c2 ! i = set_last 0 (rnd k)"
proof -
  have "i < length c1" using assms(4) by (simp add: c1_def)
  from scatter_nth_ex [OF _ assms(3) this, of "map (set_last 0) (gather ids c1)"]
  obtain k1 where "k1 < length ids" and "ids ! k1 = i" and "c2 ! i = set_last 0 (c1 ! i)"
    by (auto simp: c2_def)
  moreover from scatter_nth_ex [OF _ assms(3,4), of "randn rnd (length ids)"]
  obtain k where "k < length ids" and "ids ! k = i" and "c1 ! i = rnd k"
    by (auto simp: c1_def)
  ultimately show ?thesis by auto
qed

lemma reset_idx_fl_rows:
  fixes fl api rnd env_ids s
  defines "ids \<equiv> (case env_ids of None \<Rightarrow> ALL_INDICES (robot s) | Some e \<Rightarrow> e)"
  assumes r: "reset_idx_fl fl api rnd env_ids s = Inr s'"
    and lc: "length (commands s) = num_envs s" and ly: "length (yaws s) = num_envs s"
    and i: "i \<in> set ids"
  shows "(\<exists>k < length ids. ids ! k = i \<and>
            normalize_row_fl fl (set_last 0 (rnd k)) = Some (commands s' ! i)) \<and>
         yaw_row (commands s' ! i) = Some (yaws s' ! i)"
proof -
  define c1 where "c1 = scatter ids (randn rnd (length ids)) (commands s)"
  define c2 where "c2 = scatter ids (map (set_last 0) (gather ids c1)) c1"
  from reset_idx_fl_InrD [OF r] obtain rows yaws1 where
    rng: "\<forall>i \<in> set ids. i < num_envs s"
    and rows: "those (map (normalize_row_fl fl) (gather ids c2)) = Some rows"
    and yaws1: "those (map yaw_row (gather ids (scatter ids rows c2))) = Some yaws1"
    and cs: "commands s' = scatter ids rows c2"
    and ys: "yaws s' = scatter ids yaws1 (yaws s)"
    unfolding ids_def c1_def c2_def by blast
  from rng i have iN: "i < num_envs s" by simp
  have lr: "length rows = length ids" using those_map_Some [OF rows] by simp
  have ly1: "length yaws1 = length ids" using those_map_Some [OF yaws1] by simp
  have "i < length c2" using iN lc by (simp add: c2_def c1_def)
  from scatter_nth_ex [OF lr i this] obtain k0 where k0: "k0 < length ids" "ids ! k0 = i"
    and c: "commands s' ! i = rows ! k0" by (auto simp: cs)
  from those_map_Some [OF rows] k0 have "normalize_row_fl fl (c2 ! i) = Some (rows ! k0)"
    by auto
  moreover from sampled_row [OF i, of "commands s" rnd] iN lc
  obtain k where "k < length ids" and "ids ! k = i" and "c2 ! i = set_last 0 (rnd k)"
    by (auto simp: c2_def c1_def)
  ultimately have 1: "\<exists>k < length ids. ids ! k = i \<and>
      normalize_row_fl fl (set_last 0 (rnd k)) = Some (commands s' ! i)"
    using c by auto
  have "i < length (yaws s)" using iN ly by simp
  from scatter_nth_ex [OF ly1 i this] obtain k3 where k3: "k3 < length ids" "ids ! k3 = i"
    and y: "yaws s' ! i = yaws1 ! k3" by (auto simp: ys)
  from those_map_Some [OF yaws1] k3
  have "yaw_row (scatter ids rows c2 ! i) = Some (yaws1 ! k3)" by auto
  with y cs have 2: "yaw_row (commands s' ! i) = Some (yaws s' ! i)" by simp
  from 1 2 show ?thesis by blast
qed

lemmas reset_idx_rows =
  reset_idx_fl_rows [where fl = "\<lambda>x. x", folded reset_idx_def normalize_row_def]

lemma reset_idx_returns:
  fixes api rnd env_ids s
  defines "ids \<equiv> (case env_ids of None \<Rightarrow> ALL_INDICES (robot s) | Some e \<Rightarrow> e)"
  assumes rng: "\<forall>i \<in> set ids. i < num_envs s"
    and lc: "length (commands s) = num_envs s"
    and nz: "\<forall>k < length ids. vx (rnd k) \<noteq> 0 \<or> vy (rnd k) \<noteq> 0"
  shows "\<exists>s'. reset_idx api rnd env_ids s = Inr s'"
proof -
  define c1 where "c1 = scatter ids (randn rnd (length ids)) (commands s)"
  define c2 where "c2 = scatter ids (map (set_last 0) (gather ids c1)) c1"
  have row: "\<exists>k < length ids. c2 ! i = set_last 0 (rnd k)" if "i \<in> set ids" for i
    using sampled_row [OF that, of "commands s" rnd] rng lc that
    by (auto simp: c2_def c1_def)
  have "\<forall>r \<in> set (gather ids c2). normalize_row r \<noteq> None"
  proof
    fix r assume "r \<in> set (gather ids c2)"
    then obtain i where "i \<in> set ids" and "r = c2 ! i" by (auto simp: set_gather)
    with row nz have "vx r \<noteq> 0 \<or> vy r \<noteq> 0" by fastforce
    then show "normalize_row r \<noteq> None" by (rule normalize_row_defined)
  qed
  from those_map_total [OF this] obtain rows
    where rows: "those (map normalize_row (gather ids c2)) = Some rows" by blast
  have lr: "length rows = length ids" using those_map_Some [OF rows] by simp
  have "\<forall>c \<in> set (gather ids (scatter ids rows c2)). yaw_row c \<noteq> None"
  proof
    fix c assume "c \<in> set (gather ids (scatter ids rows c2))"
    then obtain i where i: "i \<in> set ids" and c: "c = scatter ids rows c2 ! i"
      by (auto simp: set_gather)
    have "i < length c2" using rng i lc by (simp add: c2_def c1_def)
    from scatter_nth_ex [OF lr i this] obtain k where k: "k < length ids" "ids ! k = i"
      and ck: "c = rows ! k" by (auto simp: c)
    from those_map_Some [OF rows] k have n: "normalize_row (c2 ! i) = Some c"
      by (auto simp: ck)
    from row [OF i] have "vz (c2 ! i) = 0" by auto
    with normalize_row_Some [OF n] have "norm3 c = 1" and "vz c = 0" by simp_all
    then show "yaw_row c \<noteq> None" by (rule yaw_row_defined)
  qed
  from those_map_total [OF this] obtain yaws1
    where "those (map yaw_row (gather ids (scatter ids rows c2))) = Some yaws1" by blast
  with rows rng show ?thesis
    unfolding reset_idx_eq ids_def [symmetric] Let_def c1_def [symmetric] c2_def [symmetric]
    by (auto split: prod.splits)
qed

subsection \<open>An invariant of the reachable states\<close>

lemma setup_scene_lengths:
  assumes "setup_scene rob rnd s = Inr s'"
  shows "length (commands s') = num_envs s \<and> length (yaws s') = num_envs s"
proof -
  note d = setup_scene_InrD [OF assms]
  from d have c: "those (map normalize_row (map (set_last 0) (randn rnd (num_envs s)))) = Some (commands s')"
    and y: "those (map yaw_row (commands s')) = Some (yaws s')" by simp_all
  from those_map_Some [OF c] those_map_Some [OF y] show ?thesis by simp
qed

lemma reachable_invariant:
  "reachable api s \<Longrightarrow>
     length (commands s) = num_envs s \<and> length (yaws s) = num_envs s \<and>
     marker_offset s = replicate (num_envs s) (0, 0, 1 / 2) \<and> up_dir s = (0, 0, 1)"
proof (induction rule: reachable.induct)
  case (r_init rob rnd s0 s)
  then obtain s1 where s1: "setup_scene rob rnd s0 = Inr s1"
    and s: "s = s1\<lparr>dof_idx := fst (find_joints api (dof_names s1) (robot s1))\<rparr>"
    by (auto simp: init_def split: sum.splits)
  from setup_scene_InrD [OF s1] setup_scene_lengths [OF s1] show ?case
    by (simp add: s)
next
  case (r_host s rob orig buf m h)
  then show ?case by simp
next
  case (r_pre_physics_step s a)
  then show ?case by (simp add: pre_physics_step_def)
next
  case (r_apply_action s s')
  then show ?case by (auto simp: apply_action_def split: option.splits)
next
  case (r_get_observations s)
  then show ?case by (simp add: get_observations_def Let_def)
next
  case (r_reset_idx s rnd env_ids s')
  from reset_idx_InrD [OF r_reset_idx.hyps(2)] r_reset_idx.IH show ?case
    by auto
qed

subsection \<open>The ordinary run\<close>

lemma example_samples: "randn example_rnd 2 = [(1, 0, 5), (0, - 1, 2)]"
  by (simp add: randn_def example_rnd_def upt_rec numeral_2_eq_2)

lemma example_commands:
  "those (map normalize_row (map (set_last 0) [(1, 0, 5), (0, - 1, 2)]))
     = Some [(1, 0, 0), (0, - 1, 0)]"
  by (simp add: normalize_row_eq norm3_def div3_def set_last_def vx_def vy_def vz_def)

lemma example_yaws:
  "those (map yaw_row [(1, 0, 0), (0, - 1, 0)]) = Some [0, arctan (- 100000000)]"
  by (simp add: yaw_row_eq ratio_denominator_def yaw_offset_def vx_def vy_def vz_def)

lemma example_setup:
  "setup_scene example_robot example_rnd example_env =
     Inr (example_env\<lparr>robot := example_robot, visualization_markers := None,
            up_dir := (0, 0, 1), yaws := [0, arctan (- 100000000)],
            commands := [(1, 0, 0), (0, - 1, 0)],
            marker_locations := [(0, 0, 0), (0, 0, 0)],
            marker_offset := [(0, 0, 1 / 2), (0, 0, 1 / 2)],
            forward_marker_orientations := [(0, 0, 0, 0), (0, 0, 0, 0)],
            command_marker_orientations := [(0, 0, 0, 0), (0, 0, 0, 0)]\<rparr>)"
proof -
  have n: "num_envs example_env = 2" by (simp add: example_env_def)
  have r: "replicate 2 x = [x, x]" for x :: 'a by (simp add: numeral_2_eq_2)
  show ?thesis
    by (simp only: setup_scene_eq Let_def n example_samples example_commands example_yaws
        option.case r) (simp add: set_last_def vx_def vy_def)
qed

lemma example_init:
  "init example_api example_robot example_rnd example_env = Inr example_state"
  by (simp add: example_state_def init_def example_setup)

lemma example_state_fields:
  "num_envs example_state = 2"
  "commands example_state = [(1, 0, 0), (0, - 1, 0)]"
  "yaws example_state = [0, arctan (- 100000000)]"
  "robot example_state = example_robot"
  "dof_idx example_state = [0, 1]"
  "heap example_state = [[[1, - 1], [1 / 2, 1 / 2]]]"
  "env_origins example_state = [(0, 0, 0), (2, 0, 0)]"
  "episode_length_buf example_state = [0, 299]"
  "marker_offset example_state = [(0, 0, 1 / 2), (0, 0, 1 / 2)]"
  "up_dir example_state = (0, 0, 1)"
  by (simp_all add: example_state_def init_def example_setup)
    (simp_all add: example_env_def example_api_def)

subsection \<open>The ordinary run, continued\<close>

lemma example_scene_fields:
  "setup_scene example_robot example_rnd example_env = Inr example_scene"
  "num_envs example_scene = 2"
  "commands example_scene = [(1, 0, 0), (0, - 1, 0)]"
  "yaws example_scene = [0, arctan (- 100000000)]"
  by (simp_all add: example_scene_def example_setup) (simp_all add: example_env_def)

lemma example_reset_fields:
  "reset_idx example_api reset_rnd (Some [1]) example_state = Inr example_reset"
  "commands example_reset ! 1 = (0, 1, 0)"
  "yaws example_reset ! 1 = arctan 100000000"
  "commands example_reset ! 0 = (1, 0, 0)"
  "yaws example_reset ! 0 = 0"
proof -
  have "\<exists>s'. reset_idx example_api reset_rnd (Some [1]) example_state = Inr s'"
    by (rule reset_idx_returns)
      (simp_all add: example_state_fields reset_rnd_def vx_def vy_def)
  then show r: "reset_idx example_api reset_rnd (Some [1]) example_state = Inr example_reset"
    by (auto simp: example_reset_def)
  from reset_idx_rows [OF r, of 1]
  have "normalize_row (set_last 0 (reset_rnd 0)) = Some (commands example_reset ! 1)"
    and y: "yaw_row (commands example_reset ! 1) = Some (yaws example_reset ! 1)"
    by (simp_all add: example_state_fields)
  then show c: "commands example_reset ! 1 = (0, 1, 0)"
    by (simp add: reset_rnd_def normalize_row_eq norm3_def div3_def set_last_def
        vx_def vy_def vz_def)
  from y show "yaws example_reset ! 1 = arctan 100000000"
    unfolding c
    by (simp add: yaw_row_eq ratio_denominator_def yaw_offset_def vx_def vy_def vz_def)
  from reset_idx_InrD [OF r] obtain rows yaws1
    where "commands example_reset = scatter [1] rows
             (scatter [1] (map (set_last 0) (gather [1]
                (scatter [1] (randn reset_rnd (length [1::nat])) (commands example_state))))
                (scatter [1] (randn reset_rnd (length [1::nat])) (commands example_state)))"
      and "yaws example_reset = scatter [1] yaws1 (yaws example_state)"
    by auto
  then show "commands example_reset ! 0 = (1, 0, 0)" and "yaws example_reset ! 0 = 0"
    by (simp_all add: scatter_frame example_state_fields)
qed

subsection \<open>Observations and rewards\<close>

lemma get_observations_rows:
  fixes api s n
  assumes "length (root_link_quat_w (robot s)) = n" and "length (FORWARD_VEC_B (robot s)) = n"
    and "length (root_com_lin_vel_b (robot s)) = n" and "length (commands s) = n"
  defines "fwd \<equiv> (\<lambda>i. quat_apply api (root_link_quat_w (robot s) ! i) (FORWARD_VEC_B (robot s) ! i))"
  shows "\<exists>d c f.
     dot (snd (get_observations api s)) = Some d \<and>
     cross (snd (get_observations api s)) = Some c \<and>
     forward_speed (snd (get_observations api s)) = Some f \<and>
     length d = n \<and> length c = n \<and> length f = n \<and>
     (\<forall>i < n. d ! i = dot3 (fwd i) (commands s ! i) \<and>
               c ! i = vz (cross3 (fwd i) (commands s ! i)) \<and>
               f ! i = vx (root_com_lin_vel_b (robot s) ! i)) \<and>
     fst (get_observations api s) = [''policy'' \<mapsto> map (\<lambda>i. [d ! i, c ! i, f ! i]) [0..<n]]"
proof -
  let ?fw = "map2 (quat_apply api) (root_link_quat_w (robot s)) (FORWARD_VEC_B (robot s))"
  let ?d = "map2 dot3 ?fw (commands s)"
  let ?c = "map vz (map2 cross3 ?fw (commands s))"
  let ?f = "map vx (root_com_lin_vel_b (robot s))"
  have l: "length ?d = n" "length ?c = n" "length ?f = n" using assms(1-4) by simp_all
  have v: "\<forall>i < n. ?d ! i = dot3 (fwd i) (commands s ! i) \<and>
               ?c ! i = vz (cross3 (fwd i) (commands s ! i)) \<and>
               ?f ! i = vx (root_com_lin_vel_b (robot s) ! i)"
    using assms(1-4) by (simp add: fwd_def)
  have "map (\<lambda>(d, c, f). [d, c, f]) (zip ?d (zip ?c ?f)) = map (\<lambda>i. [?d ! i, ?c ! i, ?f ! i]) [0..<n]"
    using l by (intro nth_equalityI) simp_all
  then have o: "fst (get_observations api s) = [''policy'' \<mapsto> map (\<lambda>i. [?d ! i, ?c ! i, ?f ! i]) [0..<n]]"
    by (simp add: get_observations_def Let_def)
  have "dot (snd (get_observations api s)) = Some ?d"
    "cross (snd (get_observations api s)) = Some ?c"
    "forward_speed (snd (get_observations api s)) = Some ?f"
    by (simp_all add: get_observations_def Let_def)
  with l v o show ?thesis by blast
qed

lemma example_reachable: "reachable example_api example_state"
  using example_init by (rule r_init)

lemma example_robot_lengths:
  "length (root_link_quat_w (robot example_state)) = num_envs example_state"
  "length (FORWARD_VEC_B (robot example_state)) = num_envs example_state"
  "length (root_com_lin_vel_b (robot example_state)) = num_envs example_state"
  "length (root_pos_w (robot example_state)) = num_envs example_state"
  "length (root_quat_w (robot example_state)) = num_envs example_state"
  by (simp_all add: example_state_fields example_robot_def)

lemma example_observations:
  "fst (get_observations example_api example_state) =
     [''policy'' \<mapsto> [[1, 0, 1 / 2], [0, 1, 1]]]"
  by (simp add: get_observations_def Let_def example_state_fields)
    (simp add: example_robot_def example_api_def dot3_def cross3_def add3_def
      vx_def vy_def vz_def)

text \<open>
  C2. In a reachable state whose robot buffers have one row per environment,
  \<open>get_observations\<close> returns a dictionary with the single key \<^verbatim>\<open>"policy"\<close>; its value
  has one row of three scalars per environment, in this order: the dot product of the
  robot's forward vector in the world frame (\<open>FORWARD_VEC_B\<close> rotated by the root link
  quaternion) with the command, the last component of their cross product, and the
  first component of the body-frame linear velocity of the centre of mass.
\<close>

theorem get_observations_policy:
  assumes "reachable api s"
    and "length (root_link_quat_w (robot s)) = num_envs s"
    and "length (FORWARD_VEC_B (robot s)) = num_envs s"
    and "length (root_com_lin_vel_b (robot s)) = num_envs s"
  shows "dom (fst (get_observations api s)) = {''policy''} \<and>
    (\<exists>obs. fst (get_observations api s) ''policy'' = Some obs \<and>
       length obs = num_envs s \<and>
       (\<forall>i < num_envs s.
          obs ! i =
            [dot3 (quat_apply api (root_link_quat_w (robot s) ! i) (FORWARD_VEC_B (robot s) ! i))
               (commands s ! i),
             vz (cross3 (quat_apply api (root_link_quat_w (robot s) ! i)
                   (FORWARD_VEC_B (robot s) ! i)) (commands s ! i)),
             vx (root_com_lin_vel_b (robot s) ! i)]))"
proof -
  from assms(1) have "length (commands s) = num_envs s"
    using reachable_invariant by blast
  from get_observations_rows [OF assms(2-4) this, where api = api] show ?thesis
    by (auto split: if_splits)
qed

theorem get_observations_policy_witness:
  "reachable example_api example_state \<and>
   length (root_link_quat_w (robot example_state)) = num_envs example_state \<and>
   length (FORWARD_VEC_B (robot example_state)) = num_envs example_state \<and>
   length (root_com_lin_vel_b (robot example_state)) = num_envs example_state \<and>
   dom (fst (get_observations example_api example_state)) = {''policy''} \<and>
   fst (get_observations example_api example_state) ''policy'' = Some [[1, 0, 1 / 2], [0, 1, 1]]"
  using get_observations_policy [OF example_reachable example_robot_lengths(1,2,3)]
    example_reachable example_robot_lengths(1,2,3)
  by (simp add: example_observations)

text \<open>
  The other callbacks leave the three stored quantities as \<open>get_observations\<close> left them.
\<close>

lemma callbacks_keep_observation_attributes:
  "dot (pre_physics_step api a s) = dot s \<and> cross (pre_physics_step api a s) = cross s \<and>
   forward_speed (pre_physics_step api a s) = forward_speed s"
  "apply_action api s = Inr s' \<Longrightarrow>
     dot s' = dot s \<and> cross s' = cross s \<and> forward_speed s' = forward_speed s"
  "reset_idx api rnd env_ids s = Inr s' \<Longrightarrow>
     dot s' = dot s \<and> cross s' = cross s \<and> forward_speed s' = forward_speed s"
proof -
  show "dot (pre_physics_step api a s) = dot s \<and> cross (pre_physics_step api a s) = cross s \<and>
   forward_speed (pre_physics_step api a s) = forward_speed s"
    by (simp add: pre_physics_step_def)
  show "dot s' = dot s \<and> cross s' = cross s \<and> forward_speed s' = forward_speed s"
    if "apply_action api s = Inr s'"
    using that by (auto simp: apply_action_def split: option.splits)
  show "dot s' = dot s \<and> cross s' = cross s \<and> forward_speed s' = forward_speed s"
    if "reset_idx api rnd env_ids s = Inr s'"
    using that unfolding reset_idx_eq Let_def
    by (auto split: if_splits option.splits prod.splits)
qed

text \<open>
  C1. Let \<open>get_rewards\<close> be called in a state \<open>t\<close> whose attributes \<open>dot\<close>, \<open>cross\<close> and
  \<open>forward_speed\<close> are those stored by the preceding \<open>get_observations\<close> call, which
  returned the rows \<open>obs\<close>. Then it returns one scalar per environment, and that of
  environment \<open>i\<close> is \<open>forward_speed * dot - |cross|\<close> for the three entries of \<open>obs[i]\<close>.
\<close>

theorem get_rewards_formula:
  assumes "reachable api s"
    and "length (root_link_quat_w (robot s)) = num_envs s"
    and "length (FORWARD_VEC_B (robot s)) = num_envs s"
    and "length (root_com_lin_vel_b (robot s)) = num_envs s"
    and "dot t = dot (snd (get_observations api s))"
    and "cross t = cross (snd (get_observations api s))"
    and "forward_speed t = forward_speed (snd (get_observations api s))"
  shows "\<exists>obs r. fst (get_observations api s) ''policy'' = Some obs \<and>
     get_rewards t = Inr r \<and> length r = num_envs s \<and>
     (\<forall>i < num_envs s. r ! i = obs ! i ! 2 * obs ! i ! 0 - \<bar>obs ! i ! 1\<bar>)"
proof -
  from assms(1) have "length (commands s) = num_envs s"
    using reachable_invariant by blast
  from get_observations_rows [OF assms(2-4) this, where api = api] obtain d c f where
    "dot (snd (get_observations api s)) = Some d"
    "cross (snd (get_observations api s)) = Some c"
    "forward_speed (snd (get_observations api s)) = Some f"
    and l: "length d = num_envs s" "length c = num_envs s" "length f = num_envs s"
    and o: "fst (get_observations api s) = [''policy'' \<mapsto> map (\<lambda>i. [d ! i, c ! i, f ! i]) [0..<num_envs s]]"
    by blast
  with assms(5-7) have "get_rewards t = Inr (map2 (-) (map2 (*) f d) (map abs c))"
    by (simp add: get_rewards_def)
  with l o show ?thesis by simp
qed


theorem get_rewards_formula_witness:
  "reachable example_api example_state \<and>
   length (root_link_quat_w (robot example_state)) = num_envs example_state \<and>
   length (FORWARD_VEC_B (robot example_state)) = num_envs example_state \<and>
   length (root_com_lin_vel_b (robot example_state)) = num_envs example_state \<and>
   (\<exists>r. get_rewards (snd (get_observations example_api example_state)) = Inr r \<and>
        length r = 2 \<and> r ! 0 = 1 / 2 \<and> r ! 1 = - 1)"
proof -
  from get_rewards_formula [OF example_reachable example_robot_lengths(1,2,3),
      where t = "snd (get_observations example_api example_state)"]
  obtain r where "get_rewards (snd (get_observations example_api example_state)) = Inr r"
    and "length r = num_envs example_state"
    and "\<forall>i < num_envs example_state.
          r ! i = [[1, 0, 1 / 2], [0, 1, 1]] ! i ! 2 * [[1, 0, 1 / 2], [0, 1, 1]] ! i ! 0
                  - \<bar>[[1, 0, 1 / 2], [0, 1, 1]] ! i ! 1\<bar>"
    by (auto simp: example_observations)
  then have "get_rewards (snd (get_observations example_api example_state)) = Inr r \<and>
        length r = 2 \<and> r ! 0 = 1 / 2 \<and> r ! 1 = - 1"
    by (simp add: example_state_fields)
  with example_reachable example_robot_lengths(1,2,3) show ?thesis by blast
qed

subsection \<open>The debug markers\<close>

lemma visualize_markers_two_arrows:
  assumes "marker_offset s = replicate (num_envs s) (0, 0, 1 / 2)" and "up_dir s = (0, 0, 1)"
    and "length (yaws s) = num_envs s"
    and "length (root_pos_w (robot s)) = num_envs s"
    and "length (root_quat_w (robot s)) = num_envs s"
  shows "\<exists>f. visualization_markers (visualize_markers api s) = Some f \<and> two_arrows api s f"
  using assms
  by (simp add: visualize_markers_def two_arrows_def Let_def nth_append)

lemma two_arrows_cong:
  assumes "num_envs t = num_envs s" and "robot t = robot s" and "yaws t = yaws s"
  shows "two_arrows api t f = two_arrows api s f"
  by (simp add: two_arrows_def assms)

text \<open>
  C7. Every call of \<open>visualize_markers\<close> submits a frame of two arrows per environment
  as \<open>two_arrows\<close> describes it: the call on a reachable state, the call that ends
  \<open>pre_physics_step\<close>, and the call that ends \<open>reset_idx\<close> (there for the state
  \<open>reset_idx\<close> returns, with the new yaws and the robot as the host left it). The robot's
  position and orientation buffers have one row per environment. Marker index \<open>0\<close> is
  the prototype \<^verbatim>\<open>"forward"\<close>, index \<open>1\<close> the prototype \<^verbatim>\<open>"command"\<close>.
\<close>

theorem visualize_markers_two_per_env:
  assumes "reachable api s"
  shows
  "(length (root_pos_w (robot s)) = num_envs s \<and> length (root_quat_w (robot s)) = num_envs s \<longrightarrow>
      (\<exists>f. visualization_markers (visualize_markers api s) = Some f \<and> two_arrows api s f) \<and>
      (\<exists>f. visualization_markers (pre_physics_step api a s) = Some f \<and> two_arrows api s f)) \<and>
   (reset_idx api rnd env_ids s = Inr s' \<and>
    length (root_pos_w (robot s')) = num_envs s' \<and> length (root_quat_w (robot s')) = num_envs s' \<longrightarrow>
      (\<exists>f. visualization_markers s' = Some f \<and> two_arrows api s' f)) \<and>
   map fst define_markers = [''forward'', ''command'']"
proof (intro conjI impI)
  note inv = reachable_invariant [OF assms]
  {
    assume l: "length (root_pos_w (robot s)) = num_envs s \<and>
      length (root_quat_w (robot s)) = num_envs s"
    with inv show "\<exists>f. visualization_markers (visualize_markers api s) = Some f \<and> two_arrows api s f"
      by (intro visualize_markers_two_arrows) simp_all
    let ?m = "s\<lparr>heap := heap s @ [heap s ! a], actions := Some (length (heap s))\<rparr>"
    from inv l have "\<exists>f. visualization_markers (visualize_markers api ?m) = Some f \<and> two_arrows api ?m f"
      by (intro visualize_markers_two_arrows) simp_all
    moreover have "two_arrows api ?m f = two_arrows api s f" for f
      by (rule two_arrows_cong) simp_all
    ultimately show "\<exists>f. visualization_markers (pre_physics_step api a s) = Some f \<and> two_arrows api s f"
      by (simp add: pre_physics_step_def)
  }
  {
    assume h: "reset_idx api rnd env_ids s = Inr s' \<and>
      length (root_pos_w (robot s')) = num_envs s' \<and> length (root_quat_w (robot s')) = num_envs s'"
    then have r: "reset_idx api rnd env_ids s = Inr s'" by simp
    from assms r have inv': "length (yaws s') = num_envs s'"
      "marker_offset s' = replicate (num_envs s') (0, 0, 1 / 2)" "up_dir s' = (0, 0, 1)"
      using reachable_invariant [OF r_reset_idx] by blast+
    from r obtain m where s': "s' = visualize_markers api m"
      unfolding reset_idx_eq Let_def
      by (auto split: if_splits option.splits prod.splits)
    with inv' h have "\<exists>f. visualization_markers (visualize_markers api m) = Some f \<and> two_arrows api m f"
      by (intro visualize_markers_two_arrows) simp_all
    moreover have "two_arrows api s' f = two_arrows api m f" for f
      by (rule two_arrows_cong) (simp_all add: s')
    ultimately show "\<exists>f. visualization_markers s' = Some f \<and> two_arrows api s' f"
      by (simp add: s')
  }
  show "map fst define_markers = [''forward'', ''command'']"
    by (simp add: define_markers_def)
qed


lemma example_frame:
  "visualization_markers (visualize_markers example_api example_state) =
     Some \<lparr>loc = [(0, 0, 1 / 2), (2, 0, 1 / 2), (0, 0, 1 / 2), (2, 0, 1 / 2)],
            rots = [(1, 0, 0, 0), (0, 0, 0, 1), (1, 0, 0, 0),
                    (cos (arctan (- 100000000) / 2), 0, 0, sin (arctan (- 100000000) / 2))],
            marker_indices = [0, 0, 1, 1]\<rparr>"
  by (simp add: visualize_markers_def Let_def example_state_fields upt_rec numeral_2_eq_2)
    (simp add: example_robot_def example_api_def add3_def vx_def vy_def vz_def)

theorem visualize_markers_two_per_env_witness:
  "reachable example_api example_state \<and>
   length (root_pos_w (robot example_state)) = num_envs example_state \<and>
   length (root_quat_w (robot example_state)) = num_envs example_state \<and>
   (\<exists>f. visualization_markers (visualize_markers example_api example_state) = Some f \<and>
        two_arrows example_api example_state f \<and>
        loc f = [(0, 0, 1 / 2), (2, 0, 1 / 2), (0, 0, 1 / 2), (2, 0, 1 / 2)] \<and>
        marker_indices f = [0, 0, 1, 1])"
  using visualize_markers_two_per_env [OF example_reachable, where a = 0 and rnd = reset_rnd
      and env_ids = None and s' = example_state]
    example_reachable example_robot_lengths(4,5)
  by (auto simp: example_frame)

subsection \<open>What a reset leaves alone\<close>

text \<open>
  C8. When \<open>reset_idx\<close> is called with the indices \<open>E\<close> and returns, the command and
  the yaw of every environment that is not in \<open>E\<close> are what they were, and both
  tensors keep their number of rows.
\<close>

theorem reset_idx_frame:
  assumes "reset_idx api rnd (Some E) s = Inr s'" and "i \<notin> set E"
  shows "commands s' ! i = commands s ! i \<and> yaws s' ! i = yaws s ! i \<and>
         length (commands s') = length (commands s) \<and> length (yaws s') = length (yaws s)"
proof -
  from reset_idx_InrD [OF assms(1)] obtain rows yaws1 c2 where
    c: "commands s' = scatter E rows c2"
    and c2: "c2 = scatter E (map (set_last 0) (gather E
                (scatter E (randn rnd (length E)) (commands s))))
                (scatter E (randn rnd (length E)) (commands s))"
    and y: "yaws s' = scatter E yaws1 (yaws s)"
    by auto
  from assms(2) show ?thesis
    by (simp add: c c2 y scatter_frame)
qed

theorem reset_idx_frame_witness:
  "reset_idx example_api reset_rnd (Some [1]) example_state = Inr example_reset \<and>
   0 \<notin> set [1::nat] \<and>
   commands example_reset ! 0 = commands example_state ! 0 \<and>
   yaws example_reset ! 0 = yaws example_state ! 0 \<and>
   commands example_reset ! 1 \<noteq> commands example_state ! 1"
proof -
  have "(0::nat) \<notin> set [1]" by simp
  from reset_idx_frame [OF example_reset_fields(1) this] example_reset_fields(1)
  show ?thesis
    unfolding example_reset_fields(2) by (simp add: example_state_fields)
qed

subsection \<open>A reset of all environments\<close>

lemma map2_gather:
  "map2 f (gather ids xs) (gather ids ys) = map (\<lambda>i. f (xs ! i) (ys ! i)) ids"
  by (induction ids) (simp_all add: gather_def)

lemma example_all_indices:
  "ALL_INDICES (robot example_state) = [0..<num_envs example_state]"
  by (simp add: example_state_fields example_robot_def upt_rec numeral_2_eq_2)

text \<open>
  C9. With \<open>None\<close> for the indices, \<open>reset_idx\<close> does what it does with the robot's list of
  all indices. When that list is \<open>0, \<dots>, num_envs - 1\<close>, the state is reachable and no
  sampled row has both \<open>x\<close> and \<open>y\<close> zero, it returns; the command of environment \<open>i\<close> is
  then the normalised sample \<open>i\<close> with its last component set to zero, its yaw is the one
  computed from that command, and the host is given, for all indices, the rows of the
  default root state with the origin of their environment added to the position.
\<close>

theorem reset_idx_None_resets_all:
  fixes api rnd s
  defines "r1 \<equiv> fst (super_reset_idx api (ALL_INDICES (robot s)) (robot s) (episode_length_buf s))"
  shows
  "reset_idx api rnd None s = reset_idx api rnd (Some (ALL_INDICES (robot s))) s \<and>
   (reachable api s \<and> ALL_INDICES (robot s) = [0..<num_envs s] \<and>
    (\<forall>k < num_envs s. vx (rnd k) \<noteq> 0 \<or> vy (rnd k) \<noteq> 0) \<longrightarrow>
      (\<exists>s'. reset_idx api rnd None s = Inr s' \<and>
         (\<forall>i < num_envs s.
            normalize_row (set_last 0 (rnd i)) = Some (commands s' ! i) \<and>
            yaw_row (commands s' ! i) = Some (yaws s' ! i)) \<and>
         robot s' =
           write_root_state_to_sim api
             (map (\<lambda>i. add_origin (default_root_state r1 ! i) (env_origins s ! i))
                [0..<num_envs s])
             [0..<num_envs s] r1))"
proof (intro conjI impI)
  show "reset_idx api rnd None s = reset_idx api rnd (Some (ALL_INDICES (robot s))) s"
    by (simp add: reset_idx_eq)
next
  assume h: "reachable api s \<and> ALL_INDICES (robot s) = [0..<num_envs s] \<and>
    (\<forall>k < num_envs s. vx (rnd k) \<noteq> 0 \<or> vy (rnd k) \<noteq> 0)"
  then have all: "ALL_INDICES (robot s) = [0..<num_envs s]" by simp
  from h have inv: "length (commands s) = num_envs s" "length (yaws s) = num_envs s"
    using reachable_invariant by blast+
  from h inv(1) reset_idx_returns [where env_ids = None and s = s and rnd = rnd and api = api]
  obtain s' where s': "reset_idx api rnd None s = Inr s'"
    by (auto simp: all)
  have rows: "normalize_row (set_last 0 (rnd i)) = Some (commands s' ! i) \<and>
            yaw_row (commands s' ! i) = Some (yaws s' ! i)" if "i < num_envs s" for i
  proof -
    from that have "i \<in> set (case None of None \<Rightarrow> ALL_INDICES (robot s) | Some e \<Rightarrow> e)"
      by (simp add: all)
    from reset_idx_rows [OF s' inv this] obtain k where "k < num_envs s"
      and "[0..<num_envs s] ! k = i"
      and "normalize_row (set_last 0 (rnd k)) = Some (commands s' ! i)"
      and y: "yaw_row (commands s' ! i) = Some (yaws s' ! i)"
      by (auto simp: all)
    then show ?thesis by simp
  qed
  from reset_idx_InrD [OF s']
  have "robot s' =
     write_root_state_to_sim api
       (map2 add_origin (gather [0..<num_envs s] (default_root_state r1))
          (gather [0..<num_envs s] (env_origins s)))
       [0..<num_envs s] r1"
    by (auto simp: all r1_def)
  with s' rows show "\<exists>s'. reset_idx api rnd None s = Inr s' \<and>
         (\<forall>i < num_envs s.
            normalize_row (set_last 0 (rnd i)) = Some (commands s' ! i) \<and>
            yaw_row (commands s' ! i) = Some (yaws s' ! i)) \<and>
         robot s' =
           write_root_state_to_sim api
             (map (\<lambda>i. add_origin (default_root_state r1 ! i) (env_origins s ! i))
                [0..<num_envs s])
             [0..<num_envs s] r1"
    by (auto simp: map2_gather)
qed

theorem reset_idx_None_resets_all_witness:
  "reachable example_api example_state \<and>
   ALL_INDICES (robot example_state) = [0..<num_envs example_state] \<and>
   (\<exists>s'. reset_idx example_api reset_rnd None example_state = Inr s' \<and>
      commands s' ! 0 = (0, 1, 0) \<and> commands s' ! 1 = (0, 1, 0) \<and>
      yaws s' ! 0 = arctan 100000000 \<and> yaws s' ! 1 = arctan 100000000 \<and>
      root_state_w (robot s') =
        [[0, 0, 1 / 20, 1, 0, 0, 0, 0, 0, 0, 0, 0, 0],
         [2, 0, 1 / 20, 1, 0, 0, 0, 0, 0, 0, 0, 0, 0]])"
proof -
  have nz: "\<forall>k < num_envs example_state. vx (reset_rnd k) \<noteq> 0 \<or> vy (reset_rnd k) \<noteq> 0"
    by (simp add: reset_rnd_def vx_def vy_def)
  have r1: "fst (super_reset_idx example_api (ALL_INDICES (robot example_state))
              (robot example_state) (episode_length_buf example_state)) = example_robot"
    by (simp add: example_api_def example_state_fields)
  have n: "normalize_row (set_last 0 (reset_rnd i)) = Some (0, 1, 0)" for i
    by (simp add: reset_rnd_def normalize_row_eq norm3_def div3_def set_last_def
        vx_def vy_def vz_def)
  have y: "yaw_row (0, 1, 0) = Some (arctan 100000000)"
    by (simp add: yaw_row_eq ratio_denominator_def yaw_offset_def vx_def vy_def vz_def)
  from reset_idx_None_resets_all [where api = example_api and rnd = reset_rnd
      and s = example_state] example_reachable example_all_indices nz
  obtain s' where s': "reset_idx example_api reset_rnd None example_state = Inr s'"
    and rows: "\<forall>i < num_envs example_state.
        normalize_row (set_last 0 (reset_rnd i)) = Some (commands s' ! i) \<and>
        yaw_row (commands s' ! i) = Some (yaws s' ! i)"
    and rob: "robot s' =
        write_root_state_to_sim example_api
          (map (\<lambda>i. add_origin (default_root_state example_robot ! i)
                  (env_origins example_state ! i)) [0..<num_envs example_state])
          [0..<num_envs example_state] example_robot"
    unfolding r1 by blast
  have two: "(0::nat) < num_envs example_state" "(1::nat) < num_envs example_state"
    by (simp_all add: example_state_fields)
  from rows two(1) have r0: "normalize_row (set_last 0 (reset_rnd 0)) = Some (commands s' ! 0)"
    and y0: "yaw_row (commands s' ! 0) = Some (yaws s' ! 0)" by blast+
  from rows two(2) have r1': "normalize_row (set_last 0 (reset_rnd 1)) = Some (commands s' ! 1)"
    and y1: "yaw_row (commands s' ! 1) = Some (yaws s' ! 1)" by blast+
  from r0 r1' have c: "commands s' ! 0 = (0, 1, 0)" "commands s' ! 1 = (0, 1, 0)"
    unfolding n by simp_all
  from y0 y1 have ys: "yaws s' ! 0 = arctan 100000000" "yaws s' ! 1 = arctan 100000000"
    unfolding c y by simp_all
  have "root_state_w (robot s') =
        [[0, 0, 1 / 20, 1, 0, 0, 0, 0, 0, 0, 0, 0, 0],
         [2, 0, 1 / 20, 1, 0, 0, 0, 0, 0, 0, 0, 0, 0]]"
    unfolding rob
    by (simp add: example_state_fields upt_rec numeral_2_eq_2)
      (simp add: example_api_def example_robot_def scatter_def add_origin_def
        vx_def vy_def vz_def)
  with s' c ys example_reachable example_all_indices show ?thesis by blast
qed

subsection \<open>The actions\<close>

text \<open>
  C10. \<open>pre_physics_step\<close> stores a new tensor with the contents of the one it is given,
  at an address of its own. \<open>apply_action\<close> hands the host these contents as velocity
  targets of the joints \<open>dof_idx\<close>, which \<open>init\<close> took from \<open>find_joints\<close>; it does so
  whatever the caller has written since into the tensor it passed.
\<close>

theorem actions_are_cloned:
  assumes "a < length (heap s)"
  shows
  "(init api rob rnd pre = Inr s_init \<longrightarrow>
      dof_idx s_init = fst (find_joints api (dof_names s_init) (robot s_init))) \<and>
   actions (pre_physics_step api a s) = Some (length (heap s)) \<and>
   heap (pre_physics_step api a s) = heap s @ [heap s ! a] \<and>
   (\<exists>s'. apply_action api (pre_physics_step api a s) = Inr s' \<and>
         robot s' = set_joint_velocity_target api (heap s ! a) (dof_idx s) (robot s)) \<and>
   (\<exists>s'. apply_action api
           ((pre_physics_step api a s)\<lparr>heap := (heap (pre_physics_step api a s))[a := t]\<rparr>)
         = Inr s' \<and>
         robot s' = set_joint_velocity_target api (heap s ! a) (dof_idx s) (robot s))"
  using assms
  by (auto simp: pre_physics_step_def apply_action_def nth_append init_def split: sum.splits)


theorem actions_are_cloned_witness:
  "0 < length (heap example_state) \<and>
   init example_api example_robot example_rnd example_env = Inr example_state \<and>
   dof_idx example_state = [0, 1] \<and>
   actions (pre_physics_step example_api 0 example_state) = Some 1 \<and>
   (\<exists>s'. apply_action example_api
           ((pre_physics_step example_api 0 example_state)
              \<lparr>heap := (heap (pre_physics_step example_api 0 example_state))
                         [0 := [[9, 9], [9, 9]]]\<rparr>) = Inr s' \<and>
         joint_vel_target (robot s') = [[1, - 1], [1 / 2, 1 / 2]])"
proof -
  have h: "0 < length (heap example_state)" by (simp add: example_state_fields)
  have t: "joint_vel_target
             (set_joint_velocity_target example_api (heap example_state ! 0)
                (dof_idx example_state) (robot example_state)) = [[1, - 1], [1 / 2, 1 / 2]]"
    by (simp add: example_state_fields)
      (simp add: example_api_def example_robot_def scatter_def)
  from actions_are_cloned [OF h, where api = example_api and rob = example_robot
      and rnd = example_rnd and pre = example_env and s_init = example_state
      and t = "[[9, 9], [9, 9]]"] example_init h t
  show ?thesis by (auto simp: example_state_fields)
qed

subsection \<open>Episode termination\<close>

text \<open>
  C3. The first component returned by \<open>get_dones\<close>, the early-termination flag, is
  \<open>False\<close>; the second, the time-out, has one flag per environment, and the flag of
  environment \<open>i\<close> is true exactly when \<open>episode_length_buf[i] \<ge> max_episode_length - 1\<close>.
\<close>

theorem get_dones_time_out:
  "fst (get_dones s) = False \<and>
   length (snd (get_dones s)) = length (episode_length_buf s) \<and>
   (\<forall>i < length (episode_length_buf s).
      snd (get_dones s) ! i = (max_episode_length s - 1 \<le> episode_length_buf s ! i))"
  by (simp add: get_dones_def)

theorem get_dones_time_out_witness:
  "(1::nat) < length (episode_length_buf example_env) \<and>
   \<not> fst (get_dones example_env) \<and>
   \<not> snd (get_dones example_env) ! 0 \<and> snd (get_dones example_env) ! 1"
  using get_dones_time_out [of example_env]
  by (simp add: example_env_def)

subsection \<open>Rounding to float32\<close>

text \<open>
  The rounding error of \<open>fl32\<close>: half a unit in the last place of a normal number, half
  the smallest subnormal number below that.
\<close>

lemma rne_error: "\<bar>of_int (rne t) - t\<bar> \<le> 1 / 2"
proof -
  have "of_int \<lfloor>t\<rfloor> \<le> t" "t < of_int \<lfloor>t\<rfloor> + 1" by linarith+
  then show ?thesis by (auto simp: rne_def Let_def)
qed

lemma fl32_zero [simp]: "fl32 0 = 0"
  by (simp add: fl32_def)

lemma fl32_error: "\<bar>fl32 x - x\<bar> \<le> \<bar>x\<bar> / 2 ^ 24 + 1 / 2 ^ 150"
proof (cases "x = 0")
  case True
  then show ?thesis by simp
next
  case False
  define e where "e = max \<lfloor>log 2 \<bar>x\<bar>\<rfloor> (- 126)"
  define q :: real where "q = 2 powr (of_int e - 23)"
  have q: "0 < q" by (simp add: q_def)
  have f: "fl32 x = of_int (rne (x / q)) * q"
    using False by (simp add: fl32_def e_def q_def Let_def)
  have "fl32 x - x = (of_int (rne (x / q)) - x / q) * q"
    using q by (simp add: f left_diff_distrib)
  then have "\<bar>fl32 x - x\<bar> = \<bar>of_int (rne (x / q)) - x / q\<bar> * q"
    using q by (simp add: abs_mult)
  also have "\<dots> \<le> 1 / 2 * q"
    using rne_error [of "x / q"] q by (intro mult_right_mono) simp_all
  finally have h: "\<bar>fl32 x - x\<bar> \<le> q / 2" by simp
  have q2: "q / 2 = 2 powr of_int e / 2 ^ 24"
    by (simp add: q_def powr_diff)
  show ?thesis
  proof (cases "- 126 \<le> \<lfloor>log 2 \<bar>x\<bar>\<rfloor>")
    case True
    then have "e = \<lfloor>log 2 \<bar>x\<bar>\<rfloor>" by (simp add: e_def)
    then have "of_int e \<le> log 2 \<bar>x\<bar>" by simp
    then have "2 powr of_int e \<le> \<bar>x\<bar>"
      using False by (simp add: le_log_iff)
    then have "q / 2 \<le> \<bar>x\<bar> / 2 ^ 24" by (simp add: q2 divide_right_mono)
    with h have "\<bar>fl32 x - x\<bar> \<le> \<bar>x\<bar> / 2 ^ 24" by linarith
    moreover have "(0::real) \<le> 1 / 2 ^ 150" by simp
    ultimately show ?thesis by linarith
  next
    case False
    then have "e = - 126" by (simp add: e_def)
    then have "q / 2 = 1 / 2 ^ 150"
      by (simp add: q2 powr_minus divide_simps)
    with h have "\<bar>fl32 x - x\<bar> \<le> 1 / 2 ^ 150" by (simp only:)
    moreover have "0 \<le> \<bar>x\<bar> / 2 ^ 24" by simp
    ultimately show ?thesis by linarith
  qed
qed

text \<open>The value of \<open>fl32\<close> at a number whose binary exponent is known.\<close>

lemma fl32_eval:
  assumes "x \<noteq> 0" and "2 powr of_int e \<le> \<bar>x\<bar>" and "\<bar>x\<bar> < 2 powr (of_int e + 1)"
    and "- 126 \<le> e"
  shows "fl32 x = of_int (rne (x / 2 powr (of_int e - 23))) * 2 powr (of_int e - 23)"
proof -
  have "of_int e \<le> log 2 \<bar>x\<bar>" using assms(1,2) by (simp add: le_log_iff)
  moreover have "log 2 \<bar>x\<bar> < of_int e + 1" using assms(1,3) by (simp add: log_less_iff)
  ultimately have "\<lfloor>log 2 \<bar>x\<bar>\<rfloor> = e" by linarith
  with assms(1,4) show ?thesis by (simp add: fl32_def Let_def max_def)
qed

lemma round_step:
  fixes A t f :: real
  assumes "\<bar>f - t\<bar> \<le> \<bar>t\<bar> / 2 ^ 24 + 1 / 2 ^ 150" and "0 \<le> t"
  shows "t - t / 2 ^ 24 - 1 / 2 ^ 150 \<le> f" and "f \<le> t + t / 2 ^ 24 + 1 / 2 ^ 150"
  using assms unfolding abs_le_iff by linarith+

text \<open>
  The error of the normalisation, for any rounding with the error bound of \<open>fl32\<close>: the
  norm of the row \<open>(x, y, 0)\<close> is computed with a relative error below \<open>2^-21\<close>, each
  quotient adds one rounding, and the norm of the result is within \<open>2^-20\<close> of \<open>1\<close>.
\<close>

lemma normalize_error:
  fixes fl :: "real \<Rightarrow> real" and x y :: real
  assumes E: "\<And>t. \<bar>fl t - t\<bar> \<le> \<bar>t\<bar> / 2 ^ 24 + 1 / 2 ^ 150" and Z: "fl 0 = 0"
    and lo: "1 / 2 ^ 60 \<le> \<bar>x\<bar> \<or> 1 / 2 ^ 60 \<le> \<bar>y\<bar>"
  defines "n \<equiv> fl (sqrt (fl (fl (fl (x * x) + fl (y * y)) + fl (0 * 0))))"
  shows "0 < n \<and>
     \<bar>sqrt (fl (x / n) * fl (x / n) + fl (y / n) * fl (y / n)) - 1\<bar> \<le> 1 / 2 ^ 20"
proof -
  define A where "A = x * x"
  define B where "B = y * y"
  define S where "S = A + B"
  define w where "w = sqrt S"
  have A0: "0 \<le> A" and B0: "0 \<le> B" by (simp_all add: A_def B_def)
  have S0: "0 \<le> S" by (simp add: S_def A0 B0)
  have wS: "w * w = S" using S0 by (simp add: w_def)
  have w60: "1 / 2 ^ 60 \<le> w"
  proof -
    have "sqrt (x * x) \<le> sqrt (x * x + y * y)" "sqrt (y * y) \<le> sqrt (x * x + y * y)"
      by (simp_all add: real_sqrt_le_iff del: real_sqrt_abs2)
    then have "\<bar>x\<bar> \<le> w" "\<bar>y\<bar> \<le> w"
      unfolding w_def S_def A_def B_def by simp_all
    with lo show ?thesis by linarith
  qed
  moreover have "(0::real) < 1 / 2 ^ 60" by simp
  ultimately have w0: "0 < w" by linarith
  have S120: "1 / 2 ^ 120 \<le> S"
  proof -
    have "1 / 2 ^ 60 * (1 / 2 ^ 60) \<le> w * w"
      using w60 by (intro mult_mono) simp_all
    then show ?thesis by (simp add: wS)
  qed
  define sx where "sx = fl A"
  define sy where "sy = fl B"
  define t where "t = sx + sy"
  define s1 where "s1 = fl t"
  define s where "s = fl (s1 + fl (0 * 0))"
  have n: "n = fl (sqrt s)" by (simp add: n_def s_def s1_def t_def sx_def sy_def A_def B_def)
  have s_eq: "s = fl s1" by (simp add: s_def Z)
  note e1 = round_step [OF E [of A, folded sx_def] A0]
  note e2 = round_step [OF E [of B, folded sy_def] B0]
  have tl: "S * (1 - 5 / 2 ^ 26) \<le> t"
    using e1(1) e2(1) S120 unfolding t_def S_def by simp
  have tu: "t \<le> S * (1 + 5 / 2 ^ 26)"
    using e1(2) e2(2) S120 unfolding t_def S_def by simp
  have t0: "0 \<le> t" using tl S0 S120 by simp
  note e3 = round_step [OF E [of t, folded s1_def] t0]
  have s1l: "S * (1 - 5 / 2 ^ 25) \<le> s1" using tl e3(1) S120 by simp
  have s1u: "s1 \<le> S * (1 + 5 / 2 ^ 25)" using tu e3(2) S120 by simp
  have s10: "0 \<le> s1" using s1l S0 S120 by simp
  note e4 = round_step [OF E [of s1, folded s_eq] s10]
  have sl: "S * (1 - 1 / 2 ^ 22) \<le> s" using s1l e4(1) S120 by simp
  have su: "s \<le> S * (1 + 1 / 2 ^ 22)" using s1u e4(2) S120 by simp
  have s0: "0 \<le> s" using sl S0 S120 by simp
(*CUT4*)
  define r where "r = sqrt s"
  have sq: "(w * c)\<^sup>2 = S * c\<^sup>2" for c
    by (simp add: power2_eq_square wS [symmetric])
  have rl: "w * (1 - 1 / 2 ^ 22) \<le> r"
  proof -
    have "(w * (1 - 1 / 2 ^ 22))\<^sup>2 = S * (1 - 1 / 2 ^ 22)\<^sup>2"
      by (rule sq)
    also have "\<dots> \<le> S * (1 - 1 / 2 ^ 22)"
      using S0 by (intro mult_left_mono) (simp_all add: power2_eq_square)
    also have "\<dots> \<le> s" by (rule sl)
    finally show ?thesis unfolding r_def by (rule real_le_rsqrt)
  qed
  have ru: "r \<le> w * (1 + 1 / 2 ^ 23)"
  proof -
    have "s \<le> S * (1 + 1 / 2 ^ 22)" by (rule su)
    also have "\<dots> \<le> S * (1 + 1 / 2 ^ 23)\<^sup>2"
      using S0 by (intro mult_left_mono) (simp_all add: power2_eq_square)
    also have "\<dots> = (w * (1 + 1 / 2 ^ 23))\<^sup>2"
      by (rule sq [symmetric])
    finally show ?thesis unfolding r_def using w0 by (intro real_le_lsqrt) simp_all
  qed
  have r0: "0 \<le> r" by (simp add: r_def s0)
  have nr: "n = fl r" by (simp add: n r_def)
  note e5 = round_step [OF E [of r, folded nr] r0]
  have nl: "w * (1 - 1 / 2 ^ 21) \<le> n" using rl e5(1) w60 by simp
  have nu: "n \<le> w * (1 + 1 / 2 ^ 22)" using ru e5(2) w60 by simp
  have n0: "0 < n" using nl w0 w60 by simp
  define Q where "Q = w / n"
  have Ql: "1 - 1 / 2 ^ 22 \<le> Q"
    unfolding Q_def using n0 nu w0 by (simp add: pos_le_divide_eq)
  have Qu: "Q \<le> 1 + 9 / 2 ^ 24"
    unfolding Q_def using n0 nl w0 by (simp add: pos_divide_le_eq)
  define qx where "qx = x / n"
  define qy where "qy = y / n"
  define cx where "cx = fl qx"
  define cy where "cy = fl qy"
  have "qx * qx + qy * qy = S / (n * n)"
    by (simp add: qx_def qy_def S_def A_def B_def add_divide_distrib)
  then have cq: "sqrt (qx * qx + qy * qy) = Q"
    using n0 by (simp add: real_sqrt_divide w_def Q_def)
  have "sqrt (qx * qx) \<le> sqrt (qx * qx + qy * qy)" "sqrt (qy * qy) \<le> sqrt (qx * qx + qy * qy)"
    by (simp_all add: real_sqrt_le_iff del: real_sqrt_abs2)
  then have qb: "\<bar>qx\<bar> \<le> Q" "\<bar>qy\<bar> \<le> Q" by (simp_all add: cq)
  have ex: "\<bar>cx - qx\<bar> \<le> Q / 2 ^ 24 + 1 / 2 ^ 150"
    using E [of qx] qb(1) unfolding cx_def by simp
  have ey: "\<bar>cy - qy\<bar> \<le> Q / 2 ^ 24 + 1 / 2 ^ 150"
    using E [of qy] qb(2) unfolding cy_def by simp
  have "\<bar>cmod (Complex cx cy) - cmod (Complex qx qy)\<bar> \<le> cmod (Complex cx cy - Complex qx qy)"
    by (rule norm_triangle_ineq3)
  also have "\<dots> \<le> \<bar>cx - qx\<bar> + \<bar>cy - qy\<bar>"
    using cmod_le [of "Complex cx cy - Complex qx qy"] by simp
  finally have tri: "\<bar>sqrt (cx * cx + cy * cy) - Q\<bar> \<le> \<bar>cx - qx\<bar> + \<bar>cy - qy\<bar>"
    by (simp add: cmod_def power2_eq_square cq)
  define dN where "dN = \<bar>sqrt (cx * cx + cy * cy) - Q\<bar>"
  define dx where "dx = \<bar>cx - qx\<bar>"
  define dy where "dy = \<bar>cy - qy\<bar>"
  have "dN \<le> dx + dy" using tri by (simp add: dN_def dx_def dy_def)
  moreover have "dx \<le> 3 / 2 ^ 25" using ex Qu unfolding dx_def [symmetric] by simp
  moreover have "dy \<le> 3 / 2 ^ 25" using ey Qu unfolding dy_def [symmetric] by simp
  ultimately have "dN \<le> 3 / 2 ^ 24" by simp
  moreover have "\<bar>Q - 1\<bar> \<le> 9 / 2 ^ 24"
  proof -
    have "- (9 / 2 ^ 24) \<le> Q - 1" using Ql by simp
    moreover have "Q - 1 \<le> 9 / 2 ^ 24" using Qu by simp
    ultimately show ?thesis unfolding abs_le_iff by linarith
  qed
  moreover have "\<bar>sqrt (cx * cx + cy * cy) - 1\<bar> \<le> dN + \<bar>Q - 1\<bar>"
    unfolding dN_def by linarith
  ultimately have "\<bar>sqrt (cx * cx + cy * cy) - 1\<bar> \<le> 1 / 2 ^ 20" by simp
  with n0 show ?thesis by (simp add: cx_def cy_def qx_def qy_def)
qed

lemma fl32_values:
  "fl32 9 = 9" "fl32 16 = 16" "fl32 25 = 25" "fl32 5 = 5" "fl32 1 = 1"
  "fl32 (3 / 5) = 10066330 / 2 ^ 24" "fl32 (4 / 5) = 13421773 / 2 ^ 24"
  using fl32_eval [of 9 3] fl32_eval [of 16 4] fl32_eval [of 25 4] fl32_eval [of 5 2]
    fl32_eval [of 1 0] fl32_eval [of "3 / 5" "- 1"] fl32_eval [of "4 / 5" "- 1"]
  by (simp_all add: powr_minus rne_def Let_def)

lemma normalize32_row:
  assumes "1 / 2 ^ 60 \<le> \<bar>vx v\<bar> \<or> 1 / 2 ^ 60 \<le> \<bar>vy v\<bar>" and "vz v = 0"
  shows "\<exists>c. normalize_row_fl fl32 v = Some c \<and> vz c = 0 \<and> \<bar>norm3 c - 1\<bar> \<le> 1 / 2 ^ 20"
proof -
  note e = normalize_error [of fl32 "vx v" "vy v", OF fl32_error fl32_zero assms(1)]
  have n: "norm3_fl fl32 v =
      fl32 (sqrt (fl32 (fl32 (fl32 (vx v * vx v) + fl32 (vy v * vy v)) + fl32 (0 * 0))))"
    by (simp add: norm3_fl_def assms(2))
  from e have "norm3_fl fl32 v \<noteq> 0" unfolding n by simp
  then have "normalize_row_fl fl32 v = Some (div3_fl fl32 v (norm3_fl fl32 v))"
    by (simp add: normalize_row_fl_def Let_def)
  moreover have "vz (div3_fl fl32 v (norm3_fl fl32 v)) = 0"
    by (simp add: div3_fl_def assms(2) fl32_zero) (simp add: vz_def)
  moreover have "\<bar>norm3 (div3_fl fl32 v (norm3_fl fl32 v)) - 1\<bar> \<le> 1 / 2 ^ 20"
    using e unfolding n [symmetric]
    by (simp add: norm3_def div3_fl_def assms(2) fl32_zero) (simp add: vx_def vy_def vz_def)
  ultimately show ?thesis by blast
qed

subsection \<open>The command vector\<close>

text \<open>The yaw of a row that is a unit vector up to rounding is a number.\<close>

lemma yaw_row_near_unit:
  assumes "vz c = 0" and "\<bar>norm3 c - 1\<bar> \<le> 1 / 2 ^ 20"
  shows "yaw_row c \<noteq> None"
proof -
  have "\<not> (vx c = - (1 / 10 ^ 8) \<and> vy c = 0)"
  proof
    assume h: "vx c = - (1 / 10 ^ 8) \<and> vy c = 0"
    then have "norm3 c = sqrt (1 / 10 ^ 8 * (1 / 10 ^ 8))"
      by (simp add: norm3_def assms(1))
    also have "\<dots> = \<bar>1 / 10 ^ 8\<bar>" by (rule real_sqrt_abs2)
    finally show False using assms(2) by simp
  qed
  then show ?thesis
    unfolding yaw_row_eq ratio_denominator_def
    by (cases "vx c = - (1 / 10 ^ 8)") (auto simp: add_eq_0_iff)
qed

lemma setup32_returns:
  assumes "\<forall>k < num_envs s. moderate (rnd k)"
  shows "\<exists>s'. setup_scene_fl fl32 rob rnd s = Inr s'"
proof -
  let ?rows = "map (set_last 0) (randn rnd (num_envs s))"
  have good: "\<exists>c. normalize_row_fl fl32 r = Some c \<and> vz c = 0 \<and> \<bar>norm3 c - 1\<bar> \<le> 1 / 2 ^ 20"
    if "r \<in> set ?rows" for r
  proof -
    from that obtain k where "k < num_envs s" and "r = set_last 0 (rnd k)"
      by (auto simp: randn_def)
    with assms show ?thesis
      by (intro normalize32_row) (auto simp: moderate_def)
  qed
  then have "\<forall>r \<in> set ?rows. normalize_row_fl fl32 r \<noteq> None" by fastforce
  from those_map_total [OF this] obtain cs
    where cs: "those (map (normalize_row_fl fl32) ?rows) = Some cs" by blast
  have "\<forall>c \<in> set cs. yaw_row c \<noteq> None"
  proof
    fix c assume "c \<in> set cs"
    then obtain i where i: "i < length cs" and ci: "c = cs ! i"
      by (auto simp: in_set_conv_nth)
    from those_map_Some [OF cs] i
    have n: "normalize_row_fl fl32 (?rows ! i) = Some c" and "i < length ?rows"
      by (simp_all add: ci)
    then have "?rows ! i \<in> set ?rows" by (intro nth_mem)
    from good [OF this] n have "vz c = 0" and "\<bar>norm3 c - 1\<bar> \<le> 1 / 2 ^ 20"
      by auto
    then show "yaw_row c \<noteq> None" by (rule yaw_row_near_unit)
  qed
  from those_map_total [OF this] obtain ys where "those (map yaw_row cs) = Some ys"
    by blast
  with cs show ?thesis
    by (simp add: setup_scene_fl_def Let_def)
qed

lemma reset32_returns:
  fixes api rnd env_ids s
  defines "ids \<equiv> (case env_ids of None \<Rightarrow> ALL_INDICES (robot s) | Some e \<Rightarrow> e)"
  assumes rng: "\<forall>i \<in> set ids. i < num_envs s"
    and lc: "length (commands s) = num_envs s"
    and nz: "\<forall>k < length ids. moderate (rnd k)"
  shows "\<exists>s'. reset_idx_fl fl32 api rnd env_ids s = Inr s'"
proof -
  define c1 where "c1 = scatter ids (randn rnd (length ids)) (commands s)"
  define c2 where "c2 = scatter ids (map (set_last 0) (gather ids c1)) c1"
  have row: "\<exists>k < length ids. c2 ! i = set_last 0 (rnd k)" if "i \<in> set ids" for i
    using sampled_row [OF that, of "commands s" rnd] rng lc that
    by (auto simp: c2_def c1_def)
  have good: "\<exists>c. normalize_row_fl fl32 (c2 ! i) = Some c \<and> vz c = 0 \<and>
      \<bar>norm3 c - 1\<bar> \<le> 1 / 2 ^ 20" if "i \<in> set ids" for i
  proof -
    from row [OF that] obtain k where "k < length ids" and "c2 ! i = set_last 0 (rnd k)"
      by blast
    with nz show ?thesis
      by (intro normalize32_row) (auto simp: moderate_def)
  qed
  have "\<forall>r \<in> set (gather ids c2). normalize_row_fl fl32 r \<noteq> None"
    using good by (fastforce simp: set_gather)
  from those_map_total [OF this] obtain rows
    where rows: "those (map (normalize_row_fl fl32) (gather ids c2)) = Some rows" by blast
  have lr: "length rows = length ids" using those_map_Some [OF rows] by simp
  have "\<forall>c \<in> set (gather ids (scatter ids rows c2)). yaw_row c \<noteq> None"
  proof
    fix c assume "c \<in> set (gather ids (scatter ids rows c2))"
    then obtain i where i: "i \<in> set ids" and c: "c = scatter ids rows c2 ! i"
      by (auto simp: set_gather)
    have "i < length c2" using rng i lc by (simp add: c2_def c1_def)
    from scatter_nth_ex [OF lr i this] obtain k where k: "k < length ids" "ids ! k = i"
      and ck: "c = rows ! k" by (auto simp: c)
    from those_map_Some [OF rows] k have n: "normalize_row_fl fl32 (c2 ! i) = Some c"
      by (auto simp: ck)
    from good [OF i] n have "vz c = 0" and "\<bar>norm3 c - 1\<bar> \<le> 1 / 2 ^ 20"
      by auto
    then show "yaw_row c \<noteq> None" by (rule yaw_row_near_unit)
  qed
  from those_map_total [OF this] obtain yaws1
    where "those (map yaw_row (gather ids (scatter ids rows c2))) = Some yaws1" by blast
  with rows rng show ?thesis
    unfolding reset_idx_fl_def ids_def [symmetric] Let_def c1_def [symmetric] c2_def [symmetric]
    by (auto split: prod.splits)
qed

lemma reset_idx_fl_command:
  fixes fl api rnd env_ids s
  defines "ids \<equiv> (case env_ids of None \<Rightarrow> ALL_INDICES (robot s) | Some e \<Rightarrow> e)"
  assumes r: "reset_idx_fl fl api rnd env_ids s = Inr s'"
    and lc: "length (commands s) = num_envs s"
    and i: "i \<in> set ids"
  shows "\<exists>k < length ids. ids ! k = i \<and>
            normalize_row_fl fl (set_last 0 (rnd k)) = Some (commands s' ! i)"
proof -
  define c1 where "c1 = scatter ids (randn rnd (length ids)) (commands s)"
  define c2 where "c2 = scatter ids (map (set_last 0) (gather ids c1)) c1"
  from reset_idx_fl_InrD [OF r] obtain rows where
    rng: "\<forall>i \<in> set ids. i < num_envs s"
    and rows: "those (map (normalize_row_fl fl) (gather ids c2)) = Some rows"
    and cs: "commands s' = scatter ids rows c2"
    unfolding ids_def c1_def c2_def by blast
  from rng i have iN: "i < num_envs s" by simp
  have lr: "length rows = length ids" using those_map_Some [OF rows] by simp
  have "i < length c2" using iN lc by (simp add: c2_def c1_def)
  from scatter_nth_ex [OF lr i this] obtain k0 where k0: "k0 < length ids" "ids ! k0 = i"
    and c: "commands s' ! i = rows ! k0" by (auto simp: cs)
  from those_map_Some [OF rows] k0 have "normalize_row_fl fl (c2 ! i) = Some (rows ! k0)"
    by auto
  moreover from sampled_row [OF i, of "commands s" rnd] iN lc
  obtain k where "k < length ids" and "ids ! k = i" and "c2 ! i = set_last 0 (rnd k)"
    by (auto simp: c2_def c1_def)
  ultimately show ?thesis using c by auto
qed

lemma those_Some_map: "those xs = Some ys \<Longrightarrow> xs = map Some ys"
  by (induction xs arbitrary: ys) (auto split: option.splits)

lemma scatter_map: "scatter ids (map f vals) (map f xs) = map f (scatter ids vals xs)"
proof -
  have "fold (\<lambda>(i, v) acc. acc[i := v]) (zip ids (map f vals)) (map f xs) =
      map f (fold (\<lambda>(i, v) acc. acc[i := v]) (zip ids vals) xs)"
  proof (induction ids arbitrary: vals xs)
    case Nil
    then show ?case by simp
  next
    case (Cons i ids)
    show ?case
    proof (cases vals)
      case Nil
      then show ?thesis by simp
    next
      case (Cons v vs)
      have "(map f xs)[i := f v] = map f (xs[i := v])" by (simp add: map_update)
      with Cons Cons.IH [of vs "xs[i := v]"] show ?thesis by simp
    qed
  qed
  then show ?thesis by (simp add: scatter_def)
qed

lemma sampled_commands_setup:
  assumes "setup_scene_fl fl rob rnd s = Inr s'"
  shows "sampled_commands fl rnd (num_envs s) = map Some (commands s')"
  using setup_scene_fl_InrD [OF assms]
  by (simp add: sampled_commands_def Let_def those_Some_map)

lemma resampled_commands_reset:
  fixes fl api rnd env_ids s
  defines "ids \<equiv> (case env_ids of None \<Rightarrow> ALL_INDICES (robot s) | Some e \<Rightarrow> e)"
  assumes r: "reset_idx_fl fl api rnd env_ids s = Inr s'"
  shows "resampled_commands fl rnd ids (commands s) = map Some (commands s')"
proof -
  define c1 where "c1 = scatter ids (randn rnd (length ids)) (commands s)"
  define c2 where "c2 = scatter ids (map (set_last 0) (gather ids c1)) c1"
  from reset_idx_fl_InrD [OF r] obtain rows where
    rows: "those (map (normalize_row_fl fl) (gather ids c2)) = Some rows"
    and cs: "commands s' = scatter ids rows c2"
    unfolding ids_def c1_def c2_def by blast
  from those_Some_map [OF rows]
  have "resampled_commands fl rnd ids (commands s) = scatter ids (map Some rows) (map Some c2)"
    by (simp add: resampled_commands_def Let_def c1_def c2_def)
  with cs show ?thesis by (simp add: scatter_map)
qed

lemma sampled32_row:
  assumes "i < n" and "moderate (rnd i)"
  shows "\<exists>c. sampled_commands fl32 rnd n ! i = Some c \<and> vz c = 0 \<and>
             \<bar>norm3 c - 1\<bar> \<le> 1 / 2 ^ 20"
proof -
  have "sampled_commands fl32 rnd n ! i = normalize_row_fl fl32 (set_last 0 (rnd i))"
    using assms(1) by (simp add: sampled_commands_def Let_def)
  moreover have "\<exists>c. normalize_row_fl fl32 (set_last 0 (rnd i)) = Some c \<and> vz c = 0 \<and>
      \<bar>norm3 c - 1\<bar> \<le> 1 / 2 ^ 20"
    using assms(2) by (intro normalize32_row) (auto simp: moderate_def)
  ultimately show ?thesis by simp
qed

lemma resampled32_row:
  assumes j: "j \<in> set ids" and l: "j < length cmds"
    and m: "\<forall>k < length ids. ids ! k = j \<longrightarrow> moderate (rnd k)"
  shows "\<exists>c. resampled_commands fl32 rnd ids cmds ! j = Some c \<and> vz c = 0 \<and>
             \<bar>norm3 c - 1\<bar> \<le> 1 / 2 ^ 20"
proof -
  define c1 where "c1 = scatter ids (randn rnd (length ids)) cmds"
  define c2 where "c2 = scatter ids (map (set_last 0) (gather ids c1)) c1"
  have "j < length (map Some c2)" using l by (simp add: c2_def c1_def)
  from scatter_nth_ex [OF _ j this, of "map (normalize_row_fl fl32) (gather ids c2)"]
  have 1: "resampled_commands fl32 rnd ids cmds ! j = normalize_row_fl fl32 (c2 ! j)"
    by (auto simp: resampled_commands_def Let_def c1_def c2_def)
  from sampled_row [OF j l, of rnd] obtain k where "k < length ids" and "ids ! k = j"
    and 2: "c2 ! j = set_last 0 (rnd k)"
    by (auto simp: c2_def c1_def)
  with m have "moderate (rnd k)" by simp
  then have "\<exists>c. normalize_row_fl fl32 (set_last 0 (rnd k)) = Some c \<and> vz c = 0 \<and>
      \<bar>norm3 c - 1\<bar> \<le> 1 / 2 ^ 20"
    by (intro normalize32_row) (auto simp: moderate_def)
  with 1 2 show ?thesis by simp
qed

lemma pythagorean_row:
  "normalize_row_fl fl32 (set_last 0 (pythagorean_rnd k)) =
     Some (10066330 / 2 ^ 24, 13421773 / 2 ^ 24, 0)"
proof -
  have s: "sqrt 25 = 5" using real_sqrt_abs2 [of 5] by simp
  show ?thesis
    by (simp add: normalize_row_fl_def norm3_fl_def div3_fl_def pythagorean_rnd_def
        set_last_def vx_def vy_def vz_def fl32_values s Let_def)
qed

lemma pythagorean_moderate: "moderate (pythagorean_rnd k)"
  by (simp add: moderate_def pythagorean_rnd_def vx_def vy_def)

lemma rounded_scene_setup:
  "setup_scene_fl fl32 example_robot pythagorean_rnd example_env = Inr rounded_scene"
proof -
  have "\<exists>s'. setup_scene_fl fl32 example_robot pythagorean_rnd example_env = Inr s'"
    by (rule setup32_returns) (simp add: pythagorean_moderate)
  then show ?thesis by (auto simp: rounded_scene_def)
qed

lemma rounded_reset_run:
  "reset_idx_fl fl32 example_api pythagorean_rnd (Some [1]) example_state = Inr rounded_reset"
proof -
  have "\<exists>s'. reset_idx_fl fl32 example_api pythagorean_rnd (Some [1]) example_state = Inr s'"
    by (rule reset32_returns) (simp_all add: example_state_fields pythagorean_moderate)
  then show ?thesis by (auto simp: rounded_reset_def)
qed

text \<open>
  C4, as amended. With the rounding of float32, for every environment whose sampled row
  is moderate, the command that lines 73 to 75 leave in the tensor has last component
  exactly \<open>0\<close> and a Euclidean norm within \<open>2^-20\<close> of \<open>1\<close>, whatever the rows of the
  other environments are; \<open>setup_scene_fl fl32\<close>, when it returns, stores these rows,
  and it returns when every sampled row is moderate. The same holds for lines 142 to 144
  and \<open>reset_idx_fl fl32\<close>, called on a state with one command per environment and
  indices in range, for every environment among the indices (all those of the robot when
  the argument is \<open>None\<close>): the rows sampled for that environment are to be moderate; when
  an index occurs more than once, the row of its last occurrence is the one stored. The
  norm of the stored command is taken in exact arithmetic.
\<close>

theorem commands_unit_up_to_rounding:
  fixes api rob rnd rnd' pre s env_ids
  defines "ids \<equiv> (case env_ids of None \<Rightarrow> ALL_INDICES (robot s) | Some e \<Rightarrow> e)"
  shows
  "(i < num_envs pre \<and> moderate (rnd i) \<longrightarrow>
      (\<exists>c. sampled_commands fl32 rnd (num_envs pre) ! i = Some c \<and> vz c = 0 \<and>
            \<bar>norm3 c - 1\<bar> \<le> 1 / 2 ^ 20)) \<and>
   (setup_scene_fl fl32 rob rnd pre = Inr s1 \<longrightarrow>
      map Some (commands s1) = sampled_commands fl32 rnd (num_envs pre)) \<and>
   ((\<forall>k < num_envs pre. moderate (rnd k)) \<longrightarrow>
      (\<exists>s1. setup_scene_fl fl32 rob rnd pre = Inr s1)) \<and>
   ((\<forall>i \<in> set ids. i < num_envs s) \<and> length (commands s) = num_envs s \<and> j \<in> set ids \<and>
    (\<forall>k < length ids. ids ! k = j \<longrightarrow> moderate (rnd' k)) \<longrightarrow>
      (\<exists>c. resampled_commands fl32 rnd' ids (commands s) ! j = Some c \<and> vz c = 0 \<and>
            \<bar>norm3 c - 1\<bar> \<le> 1 / 2 ^ 20)) \<and>
   (reset_idx_fl fl32 api rnd' env_ids s = Inr s2 \<longrightarrow>
      map Some (commands s2) = resampled_commands fl32 rnd' ids (commands s)) \<and>
   ((\<forall>i \<in> set ids. i < num_envs s) \<and> length (commands s) = num_envs s \<and>
    (\<forall>k < length ids. moderate (rnd' k)) \<longrightarrow>
      (\<exists>s2. reset_idx_fl fl32 api rnd' env_ids s = Inr s2))"
proof -
  have A: "i < num_envs pre \<and> moderate (rnd i) \<longrightarrow>
      (\<exists>c. sampled_commands fl32 rnd (num_envs pre) ! i = Some c \<and> vz c = 0 \<and>
            \<bar>norm3 c - 1\<bar> \<le> 1 / 2 ^ 20)"
    using sampled32_row by blast
  have B: "setup_scene_fl fl32 rob rnd pre = Inr s1 \<longrightarrow>
      map Some (commands s1) = sampled_commands fl32 rnd (num_envs pre)"
    using sampled_commands_setup by fastforce
  have C: "(\<forall>k < num_envs pre. moderate (rnd k)) \<longrightarrow>
      (\<exists>s1. setup_scene_fl fl32 rob rnd pre = Inr s1)"
    using setup32_returns by blast
  have D: "(\<forall>i \<in> set ids. i < num_envs s) \<and> length (commands s) = num_envs s \<and> j \<in> set ids \<and>
    (\<forall>k < length ids. ids ! k = j \<longrightarrow> moderate (rnd' k)) \<longrightarrow>
      (\<exists>c. resampled_commands fl32 rnd' ids (commands s) ! j = Some c \<and> vz c = 0 \<and>
            \<bar>norm3 c - 1\<bar> \<le> 1 / 2 ^ 20)"
  proof (rule impI)
    assume h: "(\<forall>i \<in> set ids. i < num_envs s) \<and> length (commands s) = num_envs s \<and>
      j \<in> set ids \<and> (\<forall>k < length ids. ids ! k = j \<longrightarrow> moderate (rnd' k))"
    then have "j \<in> set ids" and "j < length (commands s)"
      and "\<forall>k < length ids. ids ! k = j \<longrightarrow> moderate (rnd' k)" by simp_all
    then show "\<exists>c. resampled_commands fl32 rnd' ids (commands s) ! j = Some c \<and> vz c = 0 \<and>
            \<bar>norm3 c - 1\<bar> \<le> 1 / 2 ^ 20"
      by (rule resampled32_row)
  qed
  have E: "reset_idx_fl fl32 api rnd' env_ids s = Inr s2 \<longrightarrow>
      map Some (commands s2) = resampled_commands fl32 rnd' ids (commands s)"
    unfolding ids_def using resampled_commands_reset by fastforce
  have F: "(\<forall>i \<in> set ids. i < num_envs s) \<and> length (commands s) = num_envs s \<and>
    (\<forall>k < length ids. moderate (rnd' k)) \<longrightarrow>
      (\<exists>s2. reset_idx_fl fl32 api rnd' env_ids s = Inr s2)"
    unfolding ids_def using reset32_returns by blast
  show ?thesis
    by (rule conjI [OF A conjI [OF B conjI [OF C conjI [OF D conjI [OF E F]]]]])
qed

theorem commands_unit_up_to_rounding_witness:
  "setup_scene_fl fl32 example_robot pythagorean_rnd example_env = Inr rounded_scene \<and>
   sampled_commands fl32 pythagorean_rnd 2 ! 0 = Some (commands rounded_scene ! 0) \<and>
   vz (commands rounded_scene ! 0) = 0 \<and>
   \<bar>norm3 (commands rounded_scene ! 0) - 1\<bar> \<le> 1 / 2 ^ 20 \<and>
   reset_idx_fl fl32 example_api pythagorean_rnd (Some [1]) example_state = Inr rounded_reset \<and>
   resampled_commands fl32 pythagorean_rnd [1] (commands example_state) ! 1 =
     Some (commands rounded_reset ! 1) \<and>
   vz (commands rounded_reset ! 1) = 0 \<and>
   \<bar>norm3 (commands rounded_reset ! 1) - 1\<bar> \<le> 1 / 2 ^ 20"
proof -
  note t = commands_unit_up_to_rounding [where rob = example_robot and rnd = pythagorean_rnd
      and pre = example_env and i = 0 and api = example_api and rnd' = pythagorean_rnd
      and env_ids = "Some [1]" and s = example_state and j = 1
      and ?s1.0 = rounded_scene and ?s2.0 = rounded_reset]
  have n: "num_envs example_env = 2" by (simp add: example_env_def)
  from t have "\<exists>s1. setup_scene_fl fl32 example_robot pythagorean_rnd example_env = Inr s1"
    by (simp add: pythagorean_moderate)
  then have 1: "setup_scene_fl fl32 example_robot pythagorean_rnd example_env = Inr rounded_scene"
    by (auto simp: rounded_scene_def)
  from t 1 have 2: "map Some (commands rounded_scene) = sampled_commands fl32 pythagorean_rnd 2"
    by (simp add: n)
  then have "length (commands rounded_scene) = 2"
    by (metis length_map length_randn sampled_commands_def)
  with 2 have 3: "sampled_commands fl32 pythagorean_rnd 2 ! 0 = Some (commands rounded_scene ! 0)"
    by (metis nth_map pos2)
  from t have "\<exists>c. sampled_commands fl32 pythagorean_rnd 2 ! 0 = Some c \<and> vz c = 0 \<and>
      \<bar>norm3 c - 1\<bar> \<le> 1 / 2 ^ 20"
    by (simp add: pythagorean_moderate n)
  with 3 have 4: "vz (commands rounded_scene ! 0) = 0 \<and>
      \<bar>norm3 (commands rounded_scene ! 0) - 1\<bar> \<le> 1 / 2 ^ 20"
    by simp
  from t have "\<exists>s2. reset_idx_fl fl32 example_api pythagorean_rnd (Some [1]) example_state = Inr s2"
    by (simp add: pythagorean_moderate example_state_fields)
  then have 5: "reset_idx_fl fl32 example_api pythagorean_rnd (Some [1]) example_state =
      Inr rounded_reset"
    by (auto simp: rounded_reset_def)
  from t 5 have 6: "map Some (commands rounded_reset) =
      resampled_commands fl32 pythagorean_rnd [1] (commands example_state)"
    by simp
  then have "length (commands rounded_reset) = 2"
    by (metis length_map length_scatter resampled_commands_def example_state_fields(2)
        length_Cons list.size(3) numeral_2_eq_2)
  with 6 have 7: "resampled_commands fl32 pythagorean_rnd [1] (commands example_state) ! 1 =
      Some (commands rounded_reset ! 1)"
    by (metis nth_map one_less_numeral_iff semiring_norm(76))
  from t have "\<exists>c. resampled_commands fl32 pythagorean_rnd [1] (commands example_state) ! 1 =
      Some c \<and> vz c = 0 \<and> \<bar>norm3 c - 1\<bar> \<le> 1 / 2 ^ 20"
    by (simp add: pythagorean_moderate example_state_fields(1) example_state_fields(2) [THEN arg_cong [where f = length]])
  with 7 have 8: "vz (commands rounded_reset ! 1) = 0 \<and>
      \<bar>norm3 (commands rounded_reset ! 1) - 1\<bar> \<le> 1 / 2 ^ 20"
    by simp
  from 1 3 4 5 7 8 show ?thesis by simp
qed

text \<open>
  The norm is not exactly \<open>1\<close>: the sample \<open>(3, 4, 7)\<close> has the norm \<open>5\<close> after its last
  component is set to zero, computed without rounding; the two quotients \<open>3/5\<close> and
  \<open>4/5\<close> are rounded to \<open>10066330 / 2^24\<close> and \<open>13421773 / 2^24\<close>, and the squares of
  these do not add up to \<open>1\<close>.
\<close>

theorem commands_norm_not_exactly_one:
  "setup_scene_fl fl32 example_robot pythagorean_rnd example_env = Inr rounded_scene \<and>
   commands rounded_scene ! 0 = (10066330 / 2 ^ 24, 13421773 / 2 ^ 24, 0) \<and>
   norm3 (commands rounded_scene ! 0) \<noteq> 1"
proof -
  note r = rounded_scene_setup
  from setup_scene_fl_rows [OF r, of 0]
  have c: "commands rounded_scene ! 0 = (10066330 / 2 ^ 24, 13421773 / 2 ^ 24, 0)"
    by (simp add: example_env_def pythagorean_row)
  have "norm3 (10066330 / 2 ^ 24, 13421773 / 2 ^ 24, 0) \<noteq> 1"
    by (simp add: norm3_def vx_def vy_def vz_def)
  with r c show ?thesis by simp
qed

subsection \<open>The yaw command\<close>

text \<open>The values of \<open>atan2\<close> lie in \<open>(-pi, pi]\<close>, and \<open>atan2 y x\<close> is the angle of the
  point \<open>(x, y)\<close>.\<close>

lemma atan2_range: "- pi < atan2 y x \<and> atan2 y x \<le> pi"
proof -
  have b: "- (pi / 2) < arctan (y / x)" "arctan (y / x) < pi / 2"
    by (rule arctan_lbound, rule arctan_ubound)
  have neg: "arctan (y / x) \<le> 0" if "x < 0" "0 \<le> y"
    using that by (simp add: divide_nonneg_neg)
  have pos: "0 < arctan (y / x)" if "x < 0" "y < 0"
    using that by (simp add: divide_neg_neg)
  show ?thesis
    using b neg pos pi_gt_zero unfolding atan2_def by (auto simp: not_less)
qed

lemma atan2_polar:
  assumes "x \<noteq> 0 \<or> y \<noteq> 0"
  shows "sqrt (x * x + y * y) * cos (atan2 y x) = x \<and> sqrt (x * x + y * y) * sin (atan2 y x) = y"
proof (cases "x = 0")
  case True
  with assms have "y \<noteq> 0" by simp
  with True show ?thesis by (auto simp: atan2_def)
next
  case False
  have s: "sqrt (x * x + y * y) = \<bar>x\<bar> * sqrt (1 + (y / x)\<^sup>2)"
  proof -
    have "x * x + y * y = x\<^sup>2 * (1 + (y / x)\<^sup>2)"
      using False by (simp add: power2_eq_square field_simps)
    then show ?thesis by (simp add: real_sqrt_mult)
  qed
  have p: "0 < sqrt (1 + (y / x)\<^sup>2)"
    by (simp add: add_pos_nonneg)
  have c: "cos (arctan (y / x)) = 1 / sqrt (1 + (y / x)\<^sup>2)" by (rule cos_arctan)
  have sn: "sin (arctan (y / x)) = (y / x) / sqrt (1 + (y / x)\<^sup>2)" by (rule sin_arctan)
  show ?thesis
  proof (cases "0 < x")
    case True
    then have "atan2 y x = arctan (y / x)" by (simp add: atan2_def)
    with True p show ?thesis by (simp add: s c sn)
  next
    case neg: False
    with False have xn: "x < 0" by simp
    then have "atan2 y x = arctan (y / x) + pi \<or> atan2 y x = arctan (y / x) - pi"
      by (auto simp: atan2_def)
    then have "cos (atan2 y x) = - cos (arctan (y / x)) \<and> sin (atan2 y x) = - sin (arctan (y / x))"
      by auto
    with xn p show ?thesis by (simp add: s c sn)
  qed
qed

lemma yaw_row_out_of_range:
  assumes "yaw_row c = Some w" and "- (1 / 10 ^ 8) < vx c" and "vx c < 0" and "0 < vy c"
  shows "pi < w"
proof -
  have d: "0 < ratio_denominator c" using assms(2) by (simp add: ratio_denominator_def)
  then have "0 < arctan (vy c / ratio_denominator c)" using assms(4) by simp
  moreover have "yaw_offset c = pi" using assms(3,4) by (simp add: yaw_offset_def Let_def)
  ultimately show ?thesis using assms(1) d by (auto simp: yaw_row_eq)
qed

text \<open>
  The sample \<open>(-2^-28, 1, 1/2)\<close> gives a command with \<open>-1E-8 < x < 0 < y\<close>, at setup and
  at a reset.
\<close>

lemma tiny_row:
  assumes "normalize_row (set_last 0 (tiny_rnd k)) = Some c"
  shows "- (1 / 10 ^ 8) < vx c" and "vx c < 0" and "0 < vy c" and "vz c = 0"
proof -
  define n where "n = norm3 (set_last 0 (tiny_rnd k))"
  have "n = sqrt (1 / 2 ^ 28 * (1 / 2 ^ 28) + 1)"
    by (simp add: n_def norm3_def tiny_rnd_def set_last_def vx_def vy_def vz_def)
  then have n1: "1 \<le> n" by simp
  from normalize_row_Some [OF assms]
  have x: "vx c = - (1 / 2 ^ 28) / n" and y: "vy c = 1 / n" and z: "vz c = 0"
    by (simp_all add: n_def [symmetric]) (simp_all add: tiny_rnd_def vx_def vy_def)
  have "1 / 2 ^ 28 / n \<le> 1 / 2 ^ 28 / (1::real)"
    by (rule divide_left_mono) (use n1 in simp_all)
  then show "- (1 / 10 ^ 8) < vx c" by (simp add: x)
  show "vx c < 0" using n1 by (simp add: x)
  show "0 < vy c" using n1 by (simp add: y)
  show "vz c = 0" by (rule z)
qed

lemma tiny_command:
  "setup_scene example_robot tiny_rnd example_env = Inr tiny_state"
  "normalize_row (set_last 0 (tiny_rnd 0)) = Some (commands tiny_state ! 0)"
  "yaw_row (commands tiny_state ! 0) = Some (yaws tiny_state ! 0)"
proof -
  have "\<exists>s'. setup_scene example_robot tiny_rnd example_env = Inr s'"
    by (rule setup_scene_returns) (simp add: tiny_rnd_def vx_def vy_def)
  then show r: "setup_scene example_robot tiny_rnd example_env = Inr tiny_state"
    by (auto simp: tiny_state_def)
  have "0 < num_envs example_env" by (simp add: example_env_def)
  from setup_scene_rows [OF r this]
  show "normalize_row (set_last 0 (tiny_rnd 0)) = Some (commands tiny_state ! 0)"
    and "yaw_row (commands tiny_state ! 0) = Some (yaws tiny_state ! 0)" by simp_all
qed

lemma tiny_reset_command:
  "reset_idx example_api tiny_rnd (Some [1]) example_state = Inr tiny_reset"
  "normalize_row (set_last 0 (tiny_rnd 0)) = Some (commands tiny_reset ! 1)"
  "yaw_row (commands tiny_reset ! 1) = Some (yaws tiny_reset ! 1)"
proof -
  have "\<exists>s'. reset_idx example_api tiny_rnd (Some [1]) example_state = Inr s'"
    by (rule reset_idx_returns)
      (simp_all add: example_state_fields tiny_rnd_def vx_def vy_def)
  then show r: "reset_idx example_api tiny_rnd (Some [1]) example_state = Inr tiny_reset"
    by (auto simp: tiny_reset_def)
  from reset_idx_rows [OF r, of 1]
  show "normalize_row (set_last 0 (tiny_rnd 0)) = Some (commands tiny_reset ! 1)"
    and "yaw_row (commands tiny_reset ! 1) = Some (yaws tiny_reset ! 1)"
    by (simp_all add: example_state_fields)
qed

text \<open>
  C5. The stored yaw is not always \<open>atan2 y x\<close>, and it is not always in \<open>[-pi, pi]\<close>,
  the interval that the comment of line 77 announces. For the command of the sample
  \<open>(-2^-28, 1, 1/2)\<close>, with \<open>-1E-8 < x < 0 < y\<close>, the quotient \<open>y / (x + 1E-8)\<close> is
  positive where \<open>y / x\<close> is negative; the offset \<open>pi\<close>, chosen from the sign of \<open>x\<close>, is
  added to a positive arctangent, and the yaw is beyond \<open>pi\<close>, while \<open>atan2 y x\<close> is at
  most \<open>pi\<close>. This is so after \<open>setup_scene\<close>, and after \<open>reset_idx\<close> for the
  environment that is reset.
\<close>

theorem yaw_leaves_range:
  "setup_scene example_robot tiny_rnd example_env = Inr tiny_state \<and>
   vz (commands tiny_state ! 0) = 0 \<and>
   - (1 / 10 ^ 8) < vx (commands tiny_state ! 0) \<and>
   vx (commands tiny_state ! 0) < 0 \<and>
   0 < vy (commands tiny_state ! 0) \<and>
   yaws tiny_state ! 0 =
     arctan (vy (commands tiny_state ! 0) / (vx (commands tiny_state ! 0) + 1 / 10 ^ 8)) + pi \<and>
   pi < yaws tiny_state ! 0 \<and>
   atan2 (vy (commands tiny_state ! 0)) (vx (commands tiny_state ! 0)) \<le> pi \<and>
   yaws tiny_state ! 0 \<noteq> atan2 (vy (commands tiny_state ! 0)) (vx (commands tiny_state ! 0)) \<and>
   reset_idx example_api tiny_rnd (Some [1]) example_state = Inr tiny_reset \<and>
   vz (commands tiny_reset ! 1) = 0 \<and>
   - (1 / 10 ^ 8) < vx (commands tiny_reset ! 1) \<and>
   vx (commands tiny_reset ! 1) < 0 \<and>
   0 < vy (commands tiny_reset ! 1) \<and>
   pi < yaws tiny_reset ! 1 \<and>
   yaws tiny_reset ! 1 \<noteq> atan2 (vy (commands tiny_reset ! 1)) (vx (commands tiny_reset ! 1))"
proof -
  let ?c = "commands tiny_state ! 0" and ?r = "commands tiny_reset ! 1"
  note c = tiny_row [OF tiny_command(2)] and r = tiny_row [OF tiny_reset_command(2)]
  from yaw_row_out_of_range [OF tiny_command(3) c(1,2,3)]
  have 1: "pi < yaws tiny_state ! 0" .
  have 2: "atan2 (vy ?c) (vx ?c) \<le> pi" using atan2_range by blast
  have d: "ratio_denominator ?c \<noteq> 0"
    using c(1) by (simp add: ratio_denominator_def)
  have "yaw_offset ?c = pi"
    using c(2,3) by (simp add: yaw_offset_def Let_def)
  with tiny_command(3) d
  have 3: "yaws tiny_state ! 0 = arctan (vy ?c / (vx ?c + 1 / 10 ^ 8)) + pi"
    by (simp add: yaw_row_eq ratio_denominator_def)
  from 1 2 have 4: "yaws tiny_state ! 0 \<noteq> atan2 (vy ?c) (vx ?c)" by simp
  from yaw_row_out_of_range [OF tiny_reset_command(3) r(1,2,3)]
  have 5: "pi < yaws tiny_reset ! 1" .
  have "atan2 (vy ?r) (vx ?r) \<le> pi" using atan2_range by blast
  with 5 have 6: "yaws tiny_reset ! 1 \<noteq> atan2 (vy ?r) (vx ?r)" by simp
  from tiny_command(1) c 3 1 2 4 tiny_reset_command(1) r 5 6 show ?thesis by blast
qed

text \<open>
  One more command whose yaw is not \<open>atan2 y x\<close>: for \<open>(-1, 0, 0)\<close> neither offset
  applies, and the yaw is \<open>0\<close>, not \<open>pi\<close>.
\<close>

lemma yaw_of_backward_command:
  "yaw_row (- 1, 0, 0) = Some 0 \<and> atan2 0 (- 1) = pi"
  by (simp add: yaw_row_eq ratio_denominator_def yaw_offset_def atan2_def vx_def vy_def vz_def)

subsection \<open>The denominator of the yaw quotient\<close>






end
